theory Spec2Isabelle
  imports Complex_Main
begin

section \<open>JavaScript values\<close>

text \<open>
  The values the modelled routes handle: a number, a string, \<open>null\<close>, an \<open>ObjectId\<close>
  (written by its hexadecimal string), or some other object. JavaScript numbers are
  modelled as rationals, timestamps and token counts as integers; the rounding of
  floating-point arithmetic is not modelled, so sums and differences are exact here.
\<close>

datatype jsval = Num rat | Str string | Null | ObjectId string | Obj


section \<open>Period comparison (routes/metrics.js)\<close>




section \<open>Truthiness and defaults\<close>

text \<open>
  \<open>if (x)\<close> on a value that may be absent: an absent value, \<open>null\<close>, the empty string
  and the number \<open>0\<close> are falsy.
\<close>

fun truthy :: "jsval option \<Rightarrow> bool" where
  "truthy None = False"
| "truthy (Some Null) = False"
| "truthy (Some (Str s)) = (s \<noteq> [])"
| "truthy (Some (Num n)) = (n \<noteq> 0)"
| "truthy (Some (ObjectId i)) = True"
| "truthy (Some Obj) = True"

text \<open>\<open>x || 0\<close> on an optional number.\<close>

fun orZero :: "int option \<Rightarrow> int" where
  "orZero None = 0"
| "orZero (Some n) = n"

text \<open>A destructuring default, \<open>const { feature = 'other' } = req.body\<close>.\<close>

fun withDefault :: "'a option \<Rightarrow> 'a \<Rightarrow> 'a" where
  "withDefault None d = d"
| "withDefault (Some v) d = v"

section \<open>The AIRequest collection (models/AIRequest.js)\<close>

text \<open>The nested \<open>tokens\<close> object: \<open>input\<close>, \<open>output\<close> and \<open>total\<close>.\<close>

record tokens =
  tokInput :: "int option"
  tokOutput :: "int option"
  tokTotal :: "int option"

record performance =
  startTime :: "int option"
  endTime :: "int option"
  duration :: "int option"

record metadata =
  userAgent :: "string option"
  ipAddress :: "string option"
  sessionId :: "string option"
  feature :: string
  complexity :: string
  language :: string

text \<open>
  One document. \<open>userId\<close> is an ObjectId, kept as the string that spells it. Dates are
  milliseconds since the epoch; \<open>error\<close> is the stored error
  object, whose content no modelled operation reads. The paths \<open>performance.queueTime\<close>
  and \<open>performance.processingTime\<close>, which no route writes or reads, are not carried.
\<close>

record aiRequest =
  userId :: string
  requestId :: string
  model :: string
  prompt :: string
  response :: "string option"
  tokens :: tokens
  cost :: rat
  status :: string
  error :: "string option"
  metadata :: metadata
  performance :: performance
  userPlan :: string
  createdAt :: int
  updatedAt :: int

definition modelEnum :: "string list" where
  "modelEnum = [''gpt-4'', ''gpt-3.5-turbo'', ''claude-3'', ''gemini-pro'', ''custom'']"

definition statusEnum :: "string list" where
  "statusEnum = [''pending'', ''processing'', ''completed'', ''failed'', ''cancelled'']"

definition featureEnum :: "string list" where
  "featureEnum = [''artwork-analysis'', ''style-recommendation'', ''market-analysis'',
                  ''portfolio-review'', ''other'']"

definition complexityEnum :: "string list" where
  "complexityEnum = [''simple'', ''medium'', ''complex'']"

definition planEnum :: "string list" where
  "planEnum = [''free'', ''basic'', ''premium'']"

text \<open>The schema's validators, run by \<open>save()\<close>: the enums and the two length limits.\<close>

definition aiRequestSchemaValid :: "aiRequest \<Rightarrow> bool" where
  "aiRequestSchemaValid d =
     (model d \<in> set modelEnum \<and> length (prompt d) \<le> 10000
      \<and> (case response d of None \<Rightarrow> True | Some r \<Rightarrow> length r \<le> 50000)
      \<and> status d \<in> set statusEnum
      \<and> feature (metadata d) \<in> set featureEnum
      \<and> complexity (metadata d) \<in> set complexityEnum
      \<and> userPlan d \<in> set planEnum)"

text \<open>
  \<^verbatim>\<open>
  aiRequestSchema.pre('save', function(next) {
      this.tokens.total = (this.tokens.input || 0) + (this.tokens.output || 0);
      this.updatedAt = new Date();
      next();
  });
  \<close>
  The counts are integers here and their sum is exact; the code adds two doubles, whose
  sum is rounded beyond \<open>2^53\<close> and for fractions. That rounding is not modelled.
\<close>

definition preSave :: "int \<Rightarrow> aiRequest \<Rightarrow> aiRequest" where
  "preSave date d =
     d\<lparr>tokens := (tokens d)\<lparr>tokTotal := Some (orZero (tokInput (tokens d)) + orZero (tokOutput (tokens d)))\<rparr>,
       updatedAt := date\<rparr>"

section \<open>The store and the clock\<close>

text \<open>
  What a call finds outside the process: the current time, and whether the store answers
  a read and accepts a write. A rejected promise of the store is caught by the route's
  \<open>catch\<close>.
\<close>

record env =
  now :: int
  findFails :: bool
  saveFails :: bool

text \<open>\<open>findOne\<close>: the first document that satisfies the query, with its position.\<close>

fun findOneFrom :: "nat \<Rightarrow> ('a \<Rightarrow> bool) \<Rightarrow> 'a list \<Rightarrow> (nat \<times> 'a) option" where
  "findOneFrom i P [] = None"
| "findOneFrom i P (x # xs) = (if P x then Some (i, x) else findOneFrom (Suc i) P xs)"

definition findOne :: "('a \<Rightarrow> bool) \<Rightarrow> 'a list \<Rightarrow> (nat \<times> 'a) option" where
  "findOne P docs = findOneFrom 0 P docs"

text \<open>
  \<open>save()\<close> of a new document: the schema's validators, the unique index on
  \<open>requestId\<close>, the pre-save hook, then the insert.
\<close>

definition saveNew :: "env \<Rightarrow> aiRequest list \<Rightarrow> aiRequest \<Rightarrow> (aiRequest list \<times> aiRequest) option" where
  "saveNew e docs d =
     (if saveFails e \<or> \<not> aiRequestSchemaValid d \<or> requestId d \<in> set (map requestId docs)
      then None
      else Some (docs @ [preSave (now e) d], preSave (now e) d))"

text \<open>\<open>save()\<close> of a document that was read from position \<open>i\<close>.\<close>

definition saveAt :: "env \<Rightarrow> aiRequest list \<Rightarrow> nat \<Rightarrow> aiRequest \<Rightarrow> (aiRequest list \<times> aiRequest) option" where
  "saveAt e docs i d =
     (if saveFails e \<or> \<not> aiRequestSchemaValid d then None
      else Some (docs[i := preSave (now e) d], preSave (now e) d))"

section \<open>The live metrics registry (utils/prometheus.js)\<close>

text \<open>
  The registered metrics that the modelled routes touch, each a family of values indexed
  by its label values in the order of \<open>labelNames\<close>. A counter holds its sum; a
  histogram is kept as the list of its observations, newest first.
\<close>

record registry =
  ai_requests_total :: "string \<times> string \<times> string \<times> string \<Rightarrow> rat"
  ai_request_duration_seconds :: "string \<times> string \<times> string \<Rightarrow> rat list"
  ai_request_tokens_total :: "string \<times> string \<times> string \<Rightarrow> rat"
  ai_request_cost_total :: "string \<times> string \<Rightarrow> rat"
  sales_transactions_total :: "string \<times> string \<times> string \<times> string option \<Rightarrow> rat"
  sales_revenue_total :: "string \<times> string \<times> string \<Rightarrow> rat"

text \<open>
  \<open>Counter.inc(labels)\<close> adds one. \<open>Counter.inc(labels, value)\<close> adds \<open>value\<close>;
  prom-client throws on a negative value (\<open>It is not possible to decrease a counter\<close>),
  and the counter is then left as it was. \<open>Histogram.observe\<close> takes any number.
\<close>

definition inc :: "('l \<Rightarrow> rat) \<Rightarrow> 'l \<Rightarrow> ('l \<Rightarrow> rat)" where
  "inc counter labels = counter(labels := counter labels + 1)"

definition incBy :: "('l \<Rightarrow> rat) \<Rightarrow> 'l \<Rightarrow> rat \<Rightarrow> ('l \<Rightarrow> rat) option" where
  "incBy counter labels v =
     (if v < 0 then None else Some (counter(labels := counter labels + v)))"

definition observe :: "('l \<Rightarrow> rat list) \<Rightarrow> 'l \<Rightarrow> rat \<Rightarrow> ('l \<Rightarrow> rat list)" where
  "observe histogram labels v = histogram(labels := v # histogram labels)"

text \<open>
  \<^verbatim>\<open>
  const updateAIMetrics = {
      incrementRequest: (model, status, feature, userPlan) => {
          aiRequestCounter.inc({ model, status, feature, user_plan: userPlan });
      },
      recordDuration: (model, feature, userPlan, duration) => {
          aiRequestDuration.observe({ model, feature, user_plan: userPlan }, duration / 1000);
      },
      incrementTokens: (model, type, userPlan, count) => {
          aiRequestTokens.inc({ model, type, user_plan: userPlan }, count);
      },
      incrementCost: (model, userPlan, cost) => {
          aiRequestCost.inc({ model, user_plan: userPlan }, cost);
      }
  };
  \<close>
\<close>

definition incrementRequest :: "registry \<Rightarrow> string \<Rightarrow> string \<Rightarrow> string \<Rightarrow> string \<Rightarrow> registry" where
  "incrementRequest reg mdl st feat plan =
     reg\<lparr>ai_requests_total := inc (ai_requests_total reg) (mdl, st, feat, plan)\<rparr>"

definition recordDuration :: "registry \<Rightarrow> string \<Rightarrow> string \<Rightarrow> string \<Rightarrow> int \<Rightarrow> registry" where
  "recordDuration reg mdl feat plan dur =
     reg\<lparr>ai_request_duration_seconds :=
           observe (ai_request_duration_seconds reg) (mdl, feat, plan) (of_int dur / 1000)\<rparr>"

definition incrementTokens :: "registry \<Rightarrow> string \<Rightarrow> string \<Rightarrow> string \<Rightarrow> int \<Rightarrow> registry option" where
  "incrementTokens reg mdl type plan count =
     map_option (\<lambda>c. reg\<lparr>ai_request_tokens_total := c\<rparr>)
       (incBy (ai_request_tokens_total reg) (mdl, type, plan) (of_int count))"

definition incrementCost :: "registry \<Rightarrow> string \<Rightarrow> string \<Rightarrow> rat \<Rightarrow> registry option" where
  "incrementCost reg mdl plan c =
     map_option (\<lambda>c'. reg\<lparr>ai_request_cost_total := c'\<rparr>)
       (incBy (ai_request_cost_total reg) (mdl, plan) c)"

text \<open>
  \<^verbatim>\<open>
  const updateSalesMetrics = {
      incrementTransaction: (type, status, plan, paymentMethod) => {
          salesTransactionCounter.inc({ type, status, plan, payment_method: paymentMethod });
      },
      incrementRevenue: (type, plan, currency, amount) => {
          salesRevenue.inc({ type, plan, currency }, amount);
      },
      ...
  };
  \<close>
\<close>

definition incrementTransaction ::
  "registry \<Rightarrow> string \<Rightarrow> string \<Rightarrow> string \<Rightarrow> string option \<Rightarrow> registry" where
  "incrementTransaction reg type st plan paymentMethod =
     reg\<lparr>sales_transactions_total := inc (sales_transactions_total reg) (type, st, plan, paymentMethod)\<rparr>"

definition incrementRevenue :: "registry \<Rightarrow> string \<Rightarrow> string \<Rightarrow> string \<Rightarrow> rat \<Rightarrow> registry option" where
  "incrementRevenue reg type plan currency amount =
     map_option (\<lambda>c. reg\<lparr>sales_revenue_total := c\<rparr>)
       (incBy (sales_revenue_total reg) (type, plan, currency) amount)"

section \<open>Requests and responses\<close>

text \<open>
  The authenticated caller, \<open>req.user\<close> as the authentication middleware sets it, and
  the request's headers that the routes copy into a document.
\<close>

record caller =
  callerId :: string
  callerRole :: string

record headers =
  hUserAgent :: "string option"
  hIp :: "string option"
  hSessionId :: "string option"
  hSource :: "string option"

text \<open>What the caught exception was: a rejected store call, or a throw of the metrics library.\<close>

datatype thrown = StoreError | MetricsError

text \<open>
  The responses of the write routes: 201 with the natural key, 200 with key and status,
  400 with the violated fields, 404, 409, and the 500 of the \<open>catch\<close> block.
\<close>

datatype reply =
    Created string
  | Updated string string
  | ValidationError "string list"
  | NotFound
  | Conflict
  | InternalError thrown

section \<open>The SalesAnalytics collection (models/SalesAnalytics.js)\<close>

text \<open>
  One document, with the fields the modelled operations read or write; of the nested
  \<open>refund\<close> object only its amount is read, by the sum of refunds.
\<close>

record salesAnalytics =
  saUserId :: string
  transactionId :: string
  saType :: string
  saPlan :: string
  amount :: rat
  currency :: string
  saStatus :: string
  paymentMethod :: "string option"
  saSource :: string
  refundAmount :: "rat option"
  saCreatedAt :: int
  saUpdatedAt :: int

definition typeEnum :: "string list" where
  "typeEnum = [''subscription'', ''one_time'', ''refund'', ''credit'', ''debit'']"

definition salesStatusEnum :: "string list" where
  "salesStatusEnum = [''pending'', ''completed'', ''failed'', ''cancelled'', ''refunded'']"

definition paymentMethodEnum :: "string list" where
  "paymentMethodEnum = [''stripe'', ''paypal'', ''apple_pay'', ''google_pay'', ''bank_transfer'', ''crypto'']"

definition sourceEnum :: "string list" where
  "sourceEnum = [''web'', ''mobile'', ''api'', ''admin'']"

definition salesSchemaValid :: "salesAnalytics \<Rightarrow> bool" where
  "salesSchemaValid d =
     (saType d \<in> set typeEnum \<and> saPlan d \<in> set planEnum
      \<and> saStatus d \<in> set salesStatusEnum
      \<and> (case paymentMethod d of None \<Rightarrow> True | Some m \<Rightarrow> m \<in> set paymentMethodEnum)
      \<and> saSource d \<in> set sourceEnum)"

text \<open>
  \<open>save()\<close> of a new transaction: validators, the unique index on \<open>transactionId\<close>, and
  the pre-save hook that stamps \<open>updatedAt\<close>.
\<close>

definition saveNewSale ::
  "env \<Rightarrow> salesAnalytics list \<Rightarrow> salesAnalytics \<Rightarrow> (salesAnalytics list \<times> salesAnalytics) option" where
  "saveNewSale e docs d =
     (if saveFails e \<or> \<not> salesSchemaValid d \<or> transactionId d \<in> set (map transactionId docs)
      then None
      else Some (docs @ [d\<lparr>saUpdatedAt := now e\<rparr>], d\<lparr>saUpdatedAt := now e\<rparr>))"

section \<open>The service state\<close>

record state =
  aiRequests :: "aiRequest list"
  sales :: "salesAnalytics list"
  register :: registry

section \<open>Request validation (express-validator chains)\<close>

definition isStringNotEmpty :: "string option \<Rightarrow> bool" where
  "isStringNotEmpty v = (case v of None \<Rightarrow> False | Some s \<Rightarrow> s \<noteq> [])"

definition isIn :: "string list \<Rightarrow> string option \<Rightarrow> bool" where
  "isIn allowed v = (case v of None \<Rightarrow> False | Some s \<Rightarrow> s \<in> set allowed)"

definition optionalIsIn :: "string list \<Rightarrow> string option \<Rightarrow> bool" where
  "optionalIsIn allowed v = (case v of None \<Rightarrow> True | Some s \<Rightarrow> s \<in> set allowed)"

text \<open>One entry of \<open>errors.array()\<close> for a field whose chain fails.\<close>

definition check :: "bool \<Rightarrow> string \<Rightarrow> string list" where
  "check ok field = (if ok then [] else [field])"

section \<open>POST /ai-tracking/track (routes/aiTracking.js)\<close>

record trackBody =
  bRequestId :: "string option"
  bModel :: "string option"
  bPrompt :: "string option"
  bFeature :: "string option"
  bComplexity :: "string option"
  bLanguage :: "string option"
  bUserPlan :: "string option"

definition validateTrack :: "trackBody \<Rightarrow> string list" where
  "validateTrack b =
     check (isStringNotEmpty (bRequestId b)) ''requestId''
     @ check (isIn modelEnum (bModel b)) ''model''
     @ check (isStringNotEmpty (bPrompt b)) ''prompt''
     @ check (optionalIsIn featureEnum (bFeature b)) ''feature''
     @ check (optionalIsIn complexityEnum (bComplexity b)) ''complexity''
     @ check (optionalIsIn planEnum (bUserPlan b)) ''userPlan''"

text \<open>
  \<open>new AIRequest({...})\<close> as the route builds it, with the schema's defaults for the
  fields it leaves out.
\<close>

definition newAIRequest ::
  "int \<Rightarrow> caller \<Rightarrow> headers \<Rightarrow> string \<Rightarrow> string \<Rightarrow> string \<Rightarrow> string \<Rightarrow> string \<Rightarrow> string \<Rightarrow> string
   \<Rightarrow> aiRequest" where
  "newAIRequest date u h rid mdl prm feat cplx lang plan =
     \<lparr>userId = callerId u, requestId = rid, model = mdl, prompt = prm, response = None,
      tokens = \<lparr>tokInput = Some 0, tokOutput = Some 0, tokTotal = Some 0\<rparr>,
      cost = 0, status = ''pending'', error = None,
      metadata = \<lparr>userAgent = hUserAgent h, ipAddress = hIp h, sessionId = hSessionId h,
                  feature = feat, complexity = cplx, language = lang\<rparr>,
      performance = \<lparr>startTime = Some date, endTime = None, duration = None\<rparr>,
      userPlan = plan, createdAt = date, updatedAt = date\<rparr>"

text \<open>
  The fields of the body after validation and destructuring, with the defaults applied.
\<close>

record tracking =
  tRequestId :: string
  tModel :: string
  tPrompt :: string
  tFeature :: string
  tComplexity :: string
  tLanguage :: string
  tUserPlan :: string

text \<open>
  The route awaits the store twice: \<open>await AIRequest.findOne({ requestId })\<close> (line 40)
  and \<open>await aiRequest.save()\<close> (line 67). Other requests may run between the two, so the
  route is two steps, each on the state the store has when it runs.

  The first step, lines 21 to 46: validation (400) and the duplicate check (409). It
  answers early, or goes on with the fields of the body.
\<close>

definition trackCheck :: "env \<Rightarrow> trackBody \<Rightarrow> state \<Rightarrow> reply + tracking" where
  "trackCheck e b s =
     (let errors = validateTrack b in
      if errors \<noteq> [] then Inl (ValidationError errors)
      else
        (case (bRequestId b, bModel b, bPrompt b) of
           (Some rid, Some mdl, Some prm) \<Rightarrow>
             if findFails e then Inl (InternalError StoreError)
             else if findOne (\<lambda>d. requestId d = rid) (aiRequests s) \<noteq> None then Inl Conflict
             else Inr \<lparr>tRequestId = rid, tModel = mdl, tPrompt = prm,
                       tFeature = withDefault (bFeature b) ''other'',
                       tComplexity = withDefault (bComplexity b) ''medium'',
                       tLanguage = withDefault (bLanguage b) ''en'',
                       tUserPlan = withDefault (bUserPlan b) ''free''\<rparr>
         | _ \<Rightarrow> Inl (ValidationError errors)))"

text \<open>
  The second step, lines 48 to 82: the save, and only then the counter. A rejected
  \<open>save()\<close>, also one that the unique index on \<open>requestId\<close> rejects, is caught by the
  route's \<open>catch\<close> and answered with 500.
\<close>

definition trackSave :: "env \<Rightarrow> caller \<Rightarrow> headers \<Rightarrow> tracking \<Rightarrow> state \<Rightarrow> state \<times> reply" where
  "trackSave e u h t s =
     (case saveNew e (aiRequests s)
             (newAIRequest (now e) u h (tRequestId t) (tModel t) (tPrompt t) (tFeature t)
                (tComplexity t) (tLanguage t) (tUserPlan t)) of
        None \<Rightarrow> (s, InternalError StoreError)
      | Some (docs, saved) \<Rightarrow>
          (s\<lparr>aiRequests := docs,
             register := incrementRequest (register s) (tModel t) ''pending'' (tFeature t) (tUserPlan t)\<rparr>,
           Created (requestId saved)))"

text \<open>A request that no other request interleaves with: both steps on the same state.\<close>

definition postTrack :: "env \<Rightarrow> caller \<Rightarrow> headers \<Rightarrow> trackBody \<Rightarrow> state \<Rightarrow> state \<times> reply" where
  "postTrack e u h b s =
     (case trackCheck e b s of
        Inl r \<Rightarrow> (s, r)
      | Inr t \<Rightarrow> trackSave e u h t s)"

section \<open>PUT /ai-tracking/update/:requestId (routes/aiTracking.js)\<close>

record updateBody =
  uStatus :: "string option"
  uResponse :: "string option"
  uTokens :: "tokens option"
  uCost :: "rat option"
  uError :: "string option"

definition validateUpdate :: "updateBody \<Rightarrow> string list" where
  "validateUpdate b =
     check (isIn [''processing'', ''completed'', ''failed'', ''cancelled''] (uStatus b)) ''status''"

text \<open>
  \<^verbatim>\<open>
  aiRequest.status = status;
  if (response) aiRequest.response = response;
  if (tokens) aiRequest.tokens = tokens;
  if (cost) aiRequest.cost = cost;
  if (error) aiRequest.error = error;
  \<close>
\<close>

definition assignFields :: "string \<Rightarrow> updateBody \<Rightarrow> aiRequest \<Rightarrow> aiRequest" where
  "assignFields st b d =
     (let d1 = d\<lparr>status := st\<rparr>;
          d2 = (case uResponse b of
                  Some r \<Rightarrow> if r \<noteq> [] then d1\<lparr>response := Some r\<rparr> else d1
                | None \<Rightarrow> d1);
          d3 = (case uTokens b of Some t \<Rightarrow> d2\<lparr>tokens := t\<rparr> | None \<Rightarrow> d2);
          d4 = (case uCost b of
                  Some c \<Rightarrow> if c \<noteq> 0 then d3\<lparr>cost := c\<rparr> else d3
                | None \<Rightarrow> d3);
          d5 = (case uError b of Some er \<Rightarrow> d4\<lparr>error := Some er\<rparr> | None \<Rightarrow> d4)
      in d5)"

text \<open>
  \<^verbatim>\<open>
  // Calculate performance metrics
  if (status === 'completed' || status === 'failed') {
      aiRequest.performance.endTime = new Date();
      aiRequest.performance.duration = aiRequest.performance.endTime - aiRequest.performance.startTime;
  }
  \<close>
  A document without a start time makes the difference \<open>NaN\<close>, which the Number path
  \<open>performance.duration\<close> does not take: the following \<open>save()\<close> rejects. That case is the
  result \<open>None\<close>.
\<close>

definition calculatePerformance :: "int \<Rightarrow> string \<Rightarrow> aiRequest \<Rightarrow> aiRequest option" where
  "calculatePerformance date st d =
     (if st = ''completed'' \<or> st = ''failed'' then
        (case startTime (performance d) of
           None \<Rightarrow> None
         | Some started \<Rightarrow>
             Some (d\<lparr>performance :=
                       (performance d)\<lparr>endTime := Some date, duration := Some (date - started)\<rparr>\<rparr>))
      else Some d)"

text \<open>
  The registry updates after the save, lines 146 to 159 of the route. \<open>Inr\<close> is the
  registry after all of them; \<open>Inl\<close> is the registry at the moment the metrics library
  threw, which ends the sequence.
  \<^verbatim>\<open>
  updateAIMetrics.incrementRequest(aiRequest.model, status, aiRequest.metadata.feature, aiRequest.userPlan);
  if (status === 'completed') {
      updateAIMetrics.recordDuration(aiRequest.model, aiRequest.metadata.feature, aiRequest.userPlan,
                                     aiRequest.performance.duration);
      if (aiRequest.tokens.input) {
          updateAIMetrics.incrementTokens(aiRequest.model, 'input', aiRequest.userPlan, aiRequest.tokens.input);
      }
      if (aiRequest.tokens.output) {
          updateAIMetrics.incrementTokens(aiRequest.model, 'output', aiRequest.userPlan, aiRequest.tokens.output);
      }
      if (aiRequest.cost) {
          updateAIMetrics.incrementCost(aiRequest.model, aiRequest.userPlan, aiRequest.cost);
      }
  }
  \<close>
\<close>

definition updateMetrics :: "registry \<Rightarrow> string \<Rightarrow> aiRequest \<Rightarrow> registry + registry" where
  "updateMetrics reg st d =
     (let r1 = incrementRequest reg (model d) st (feature (metadata d)) (userPlan d) in
      if st = ''completed'' then
        (case duration (performance d) of
           None \<Rightarrow> Inl r1
         | Some dur \<Rightarrow>
             (let r2 = recordDuration r1 (model d) (feature (metadata d)) (userPlan d) dur in
              case (if orZero (tokInput (tokens d)) \<noteq> 0
                    then incrementTokens r2 (model d) ''input'' (userPlan d) (orZero (tokInput (tokens d)))
                    else Some r2) of
                None \<Rightarrow> Inl r2
              | Some r3 \<Rightarrow>
                  (case (if orZero (tokOutput (tokens d)) \<noteq> 0
                         then incrementTokens r3 (model d) ''output'' (userPlan d) (orZero (tokOutput (tokens d)))
                         else Some r3) of
                     None \<Rightarrow> Inl r3
                   | Some r4 \<Rightarrow>
                       (case (if cost d \<noteq> 0 then incrementCost r4 (model d) (userPlan d) (cost d)
                              else Some r4) of
                          None \<Rightarrow> Inl r4
                        | Some r5 \<Rightarrow> Inr r5))))
      else Inr r1)"

text \<open>
  The route: validation (400), the lookup by \<open>requestId\<close> and owner (404), the field
  updates, the save, then the registry.
\<close>

definition putUpdate :: "env \<Rightarrow> caller \<Rightarrow> string \<Rightarrow> updateBody \<Rightarrow> state \<Rightarrow> state \<times> reply" where
  "putUpdate e u rid b s =
     (let errors = validateUpdate b in
      if errors \<noteq> [] then (s, ValidationError errors)
      else
        (case uStatus b of
           None \<Rightarrow> (s, ValidationError errors)
         | Some st \<Rightarrow>
             if findFails e then (s, InternalError StoreError)
             else
               (case findOne (\<lambda>d. requestId d = rid \<and> userId d = callerId u) (aiRequests s) of
                  None \<Rightarrow> (s, NotFound)
                | Some (i, found) \<Rightarrow>
                    (case calculatePerformance (now e) st (assignFields st b found) of
                       None \<Rightarrow> (s, InternalError StoreError)
                     | Some changed \<Rightarrow>
                         (case saveAt e (aiRequests s) i changed of
                            None \<Rightarrow> (s, InternalError StoreError)
                          | Some (docs, saved) \<Rightarrow>
                              (case updateMetrics (register s) st saved of
                                 Inl reg \<Rightarrow>
                                   (s\<lparr>aiRequests := docs, register := reg\<rparr>, InternalError MetricsError)
                               | Inr reg \<Rightarrow>
                                   (s\<lparr>aiRequests := docs, register := reg\<rparr>,
                                    Updated (requestId saved) (status saved))))))))"

section \<open>POST /analytics/sales/track\<close>

record salesBody =
  sbTransactionId :: "string option"
  sbType :: "string option"
  sbAmount :: "rat option"
  sbCurrency :: "string option"
  sbStatus :: "string option"
  sbPaymentMethod :: "string option"
  sbPlan :: "string option"
  sbRefundAmount :: "rat option"

definition validateSalesTrack :: "salesBody \<Rightarrow> string list" where
  "validateSalesTrack b =
     check (isStringNotEmpty (sbTransactionId b)) ''transactionId''
     @ check (isIn typeEnum (sbType b)) ''type''
     @ check (sbAmount b \<noteq> None) ''amount''
     @ check (isIn salesStatusEnum (sbStatus b)) ''status''
     @ check (optionalIsIn paymentMethodEnum (sbPaymentMethod b)) ''paymentMethod''
     @ check (optionalIsIn planEnum (sbPlan b)) ''plan''"

definition newSalesAnalytics ::
  "int \<Rightarrow> caller \<Rightarrow> headers \<Rightarrow> string \<Rightarrow> string \<Rightarrow> rat \<Rightarrow> string \<Rightarrow> string \<Rightarrow> string option \<Rightarrow> string
   \<Rightarrow> rat option \<Rightarrow> salesAnalytics" where
  "newSalesAnalytics date u h tid ty amt cur st pm plan refund =
     \<lparr>saUserId = callerId u, transactionId = tid, saType = ty, saPlan = plan, amount = amt,
      currency = cur, saStatus = st, paymentMethod = pm,
      saSource = withDefault (hSource h) ''web'', refundAmount = refund,
      saCreatedAt = date, saUpdatedAt = date\<rparr>"

text \<open>
  The route, as the AIRequest one; after the save it counts the transaction and, for a
  completed one, adds the amount to the revenue counter:
  \<^verbatim>\<open>
  await salesTransaction.save();
  updateSalesMetrics.incrementTransaction(type, status, plan, paymentMethod);
  if (status === 'completed') {
      updateSalesMetrics.incrementRevenue(type, plan, currency, amount);
  }
  \<close>
\<close>

definition postSalesTrack :: "env \<Rightarrow> caller \<Rightarrow> headers \<Rightarrow> salesBody \<Rightarrow> state \<Rightarrow> state \<times> reply" where
  "postSalesTrack e u h b s =
     (let errors = validateSalesTrack b in
      if errors \<noteq> [] then (s, ValidationError errors)
      else
        (case (sbTransactionId b, sbType b, sbAmount b, sbStatus b) of
           (Some tid, Some ty, Some amt, Some st) \<Rightarrow>
             (let cur = withDefault (sbCurrency b) ''USD'';
                  plan = withDefault (sbPlan b) ''free''
              in
                if findFails e then (s, InternalError StoreError)
                else if findOne (\<lambda>d. transactionId d = tid) (sales s) \<noteq> None then (s, Conflict)
                else
                  (case saveNewSale e (sales s)
                          (newSalesAnalytics (now e) u h tid ty amt cur st (sbPaymentMethod b) plan
                             (sbRefundAmount b)) of
                     None \<Rightarrow> (s, InternalError StoreError)
                   | Some (docs, saved) \<Rightarrow>
                       (let counted = incrementTransaction (register s) ty st plan (sbPaymentMethod b) in
                        if st = ''completed'' then
                          (case incrementRevenue counted ty plan cur amt of
                             None \<Rightarrow>
                               (s\<lparr>sales := docs, register := counted\<rparr>, InternalError MetricsError)
                           | Some reg \<Rightarrow>
                               (s\<lparr>sales := docs, register := reg\<rparr>, Created (transactionId saved)))
                        else (s\<lparr>sales := docs, register := counted\<rparr>, Created (transactionId saved)))))
         | _ \<Rightarrow> (s, ValidationError errors)))"

section \<open>Filters and match stages\<close>

text \<open>
  A filter object, as \<open>req.query\<close> or as a route builds it: a finite map from keys to
  values. The spread \<open>{ userId: id, ...req.query }\<close> is the map \<open>[userId \<mapsto> id] ++ query\<close>:
  a key of the later object replaces the same key of the earlier one.
\<close>

type_synonym filters = "string \<rightharpoonup> jsval"

text \<open>
  Date handling is the runtime's: \<open>isISO8601\<close> is the validator of the date
  parameters, \<open>newDate\<close> is \<open>new Date(value)\<close> in milliseconds.
\<close>

record dateLib =
  isISO8601 :: "string \<Rightarrow> bool"
  newDate :: "jsval \<Rightarrow> int"

text \<open>\<open>if (filters.k) matchStage.k = filters.k\<close>: the criterion, when the value is truthy.\<close>

definition criterion :: "filters \<Rightarrow> string \<Rightarrow> jsval option" where
  "criterion f k = (if truthy (f k) then f k else None)"

text \<open>\<open>if (filters.startDate) matchStage.createdAt.$gte = new Date(filters.startDate)\<close>.\<close>

definition dateCriterion :: "dateLib \<Rightarrow> filters \<Rightarrow> string \<Rightarrow> int option" where
  "dateCriterion dl f k = (if truthy (f k) then map_option (newDate dl) (f k) else None)"

text \<open>A document's string field against an equality criterion of a \<open>$match\<close> stage.\<close>

definition fieldIs :: "jsval option \<Rightarrow> string \<Rightarrow> bool" where
  "fieldIs c v = (case c of None \<Rightarrow> True | Some x \<Rightarrow> x = Str v)"

definition optFieldIs :: "jsval option \<Rightarrow> string option \<Rightarrow> bool" where
  "optFieldIs c v = (case c of None \<Rightarrow> True | Some x \<Rightarrow> (case v of None \<Rightarrow> x = Null | Some w \<Rightarrow> x = Str w))"

text \<open>
  A document's \<open>userId\<close>, which every schema declares as an ObjectId, against an equality
  criterion of a \<open>$match\<close> stage. \<open>Model.aggregate()\<close> hands the pipeline to the store
  as it is, without casting by the schema, and in the store a string is not equal to an
  ObjectId: only an ObjectId criterion matches. (\<open>find\<close>, \<open>findOne\<close> and
  \<open>countDocuments\<close> cast their filter by the schema; there the string of an id stands for
  the ObjectId it spells.)
\<close>

definition idIs :: "jsval option \<Rightarrow> string \<Rightarrow> bool" where
  "idIs c i = (case c of None \<Rightarrow> True | Some x \<Rightarrow> x = ObjectId i)"

definition optIdIs :: "jsval option \<Rightarrow> string option \<Rightarrow> bool" where
  "optIdIs c i = (case c of None \<Rightarrow> True | Some x \<Rightarrow> (case i of None \<Rightarrow> x = Null | Some w \<Rightarrow> x = ObjectId w))"

definition fromDate :: "int option \<Rightarrow> int \<Rightarrow> bool" where
  "fromDate c t = (case c of None \<Rightarrow> True | Some lo \<Rightarrow> lo \<le> t)"

definition toDate :: "int option \<Rightarrow> int \<Rightarrow> bool" where
  "toDate c t = (case c of None \<Rightarrow> True | Some hi \<Rightarrow> t \<le> hi)"

text \<open>\<open>$avg\<close> over the numeric values of a field: \<open>null\<close> when there is none.\<close>

definition avg :: "rat list \<Rightarrow> rat option" where
  "avg xs = (if xs = [] then None else Some (sum_list xs / of_nat (length xs)))"

text \<open>The values of an optional field that are present.\<close>

definition present :: "'a option list \<Rightarrow> 'a list" where
  "present xs = concat (map (\<lambda>x. case x of None \<Rightarrow> [] | Some v \<Rightarrow> [v]) xs)"

text \<open>The validators of the query parameters: \<open>optional().isString()\<close> and \<open>optional().isISO8601()\<close>.\<close>

definition optionalIsString :: "jsval option \<Rightarrow> bool" where
  "optionalIsString v = (case v of None \<Rightarrow> True | Some (Str s) \<Rightarrow> True | Some _ \<Rightarrow> False)"

definition optionalIsISO8601 :: "dateLib \<Rightarrow> jsval option \<Rightarrow> bool" where
  "optionalIsISO8601 dl v = (case v of None \<Rightarrow> True | Some (Str s) \<Rightarrow> isISO8601 dl s | Some _ \<Rightarrow> False)"

section \<open>AIRequest.getStats (models/AIRequest.js)\<close>

record aiMatch =
  mUserId :: "jsval option"
  mStatus :: "jsval option"
  mModel :: "jsval option"
  mUserPlan :: "jsval option"
  mFeature :: "jsval option"
  mCreatedGte :: "int option"
  mCreatedLte :: "int option"

definition aiMatchStage :: "dateLib \<Rightarrow> filters \<Rightarrow> aiMatch" where
  "aiMatchStage dl f =
     \<lparr>mUserId = criterion f ''userId'', mStatus = criterion f ''status'',
      mModel = criterion f ''model'', mUserPlan = criterion f ''userPlan'',
      mFeature = criterion f ''feature'',
      mCreatedGte = dateCriterion dl f ''startDate'', mCreatedLte = dateCriterion dl f ''endDate''\<rparr>"

definition aiMatches :: "aiMatch \<Rightarrow> aiRequest \<Rightarrow> bool" where
  "aiMatches m d =
     (idIs (mUserId m) (userId d) \<and> fieldIs (mStatus m) (status d)
      \<and> fieldIs (mModel m) (model d) \<and> fieldIs (mUserPlan m) (userPlan d)
      \<and> fieldIs (mFeature m) (feature (metadata d))
      \<and> fromDate (mCreatedGte m) (createdAt d) \<and> toDate (mCreatedLte m) (createdAt d))"

record aiStats =
  totalRequests :: nat
  totalTokens :: int
  totalCost :: rat
  avgDuration :: "rat option"
  successCount :: nat
  failureCount :: nat

text \<open>
  The \<open>$group\<close> stage with \<open>_id: null\<close>: one row over all matching documents, and no row
  when nothing matches.
\<close>

definition aiGroup :: "aiRequest list \<Rightarrow> aiStats list" where
  "aiGroup docs =
     (if docs = [] then []
      else [\<lparr>totalRequests = length docs,
             totalTokens = sum_list (map (\<lambda>d. orZero (tokTotal (tokens d))) docs),
             totalCost = sum_list (map cost docs),
             avgDuration = avg (map of_int (present (map (\<lambda>d. duration (performance d)) docs))),
             successCount = length (filter (\<lambda>d. status d = ''completed'') docs),
             failureCount = length (filter (\<lambda>d. status d = ''failed'') docs)\<rparr>])"

text \<open>
  \<^verbatim>\<open>
  return stats[0] || {
      totalRequests: 0, totalTokens: 0, totalCost: 0,
      avgDuration: 0, successCount: 0, failureCount: 0
  };
  \<close>
\<close>

definition getStats :: "dateLib \<Rightarrow> filters \<Rightarrow> aiRequest list \<Rightarrow> aiStats" where
  "getStats dl f docs =
     (case aiGroup (filter (aiMatches (aiMatchStage dl f)) docs) of
        [] \<Rightarrow> \<lparr>totalRequests = 0, totalTokens = 0, totalCost = 0, avgDuration = Some 0,
               successCount = 0, failureCount = 0\<rparr>
      | row # _ \<Rightarrow> row)"

section \<open>GET /ai-tracking/stats\<close>

datatype 'a answer = Ok 'a | BadRequest "string list" | ServerError

definition validateStatsQuery :: "dateLib \<Rightarrow> filters \<Rightarrow> string list" where
  "validateStatsQuery dl q =
     check (optionalIsISO8601 dl (q ''startDate'')) ''startDate''
     @ check (optionalIsISO8601 dl (q ''endDate'')) ''endDate''
     @ check (optionalIsString (q ''model'')) ''model''
     @ check (optionalIsString (q ''feature'')) ''feature''
     @ check (optionalIsString (q ''status'')) ''status''
     @ check (optionalIsString (q ''userPlan'')) ''userPlan''"

text \<open>
  \<^verbatim>\<open>
  const filters = {
      userId: req.user.id,
      ...req.query
  };
  const stats = await AIRequest.getStats(filters);
  \<close>
\<close>

definition getStatsRoute :: "env \<Rightarrow> dateLib \<Rightarrow> caller \<Rightarrow> filters \<Rightarrow> state \<Rightarrow> aiStats answer" where
  "getStatsRoute e dl u q s =
     (let errors = validateStatsQuery dl q in
      if errors \<noteq> [] then BadRequest errors
      else if findFails e then ServerError
      else Ok (getStats dl ([''userId'' \<mapsto> Str (callerId u)] ++ q) (aiRequests s)))"

section \<open>SalesAnalytics aggregations (models/SalesAnalytics.js, routes/metrics.js)\<close>

record salesMatch =
  smUserId :: "jsval option"
  smStatus :: "jsval option"
  smType :: "jsval option"
  smPlan :: "jsval option"
  smPaymentMethod :: "jsval option"
  smCurrency :: "jsval option"
  smCreatedGte :: "int option"
  smCreatedLte :: "int option"

definition salesMatches :: "salesMatch \<Rightarrow> salesAnalytics \<Rightarrow> bool" where
  "salesMatches m d =
     (idIs (smUserId m) (saUserId d) \<and> fieldIs (smStatus m) (saStatus d)
      \<and> fieldIs (smType m) (saType d) \<and> fieldIs (smPlan m) (saPlan d)
      \<and> optFieldIs (smPaymentMethod m) (paymentMethod d)
      \<and> fieldIs (smCurrency m) (currency d)
      \<and> fromDate (smCreatedGte m) (saCreatedAt d) \<and> toDate (smCreatedLte m) (saCreatedAt d))"

definition salesMatchStage :: "dateLib \<Rightarrow> filters \<Rightarrow> salesMatch" where
  "salesMatchStage dl f =
     \<lparr>smUserId = criterion f ''userId'', smStatus = criterion f ''status'',
      smType = criterion f ''type'', smPlan = criterion f ''plan'',
      smPaymentMethod = criterion f ''paymentMethod'', smCurrency = criterion f ''currency'',
      smCreatedGte = dateCriterion dl f ''startDate'', smCreatedLte = dateCriterion dl f ''endDate''\<rparr>"

record salesStats =
  totalTransactions :: nat
  totalRevenue :: rat
  avgTransactionValue :: "rat option"
  successfulTransactions :: nat
  failedTransactions :: nat
  refundedTransactions :: nat
  totalRefunds :: rat

text \<open>
  \<^verbatim>\<open>
  $group: {
      _id: null,
      totalTransactions: { $sum: 1 },
      totalRevenue: { $sum: '$amount' },
      avgTransactionValue: { $avg: '$amount' },
      successfulTransactions: { $sum: { $cond: [{ $eq: ['$status', 'completed'] }, 1, 0] } },
      failedTransactions: { $sum: { $cond: [{ $eq: ['$status', 'failed'] }, 1, 0] } },
      refundedTransactions: { $sum: { $cond: [{ $eq: ['$status', 'refunded'] }, 1, 0] } },
      totalRefunds: { $sum: '$refund.amount' }
  }
  \<close>
\<close>

definition salesGroup :: "salesAnalytics list \<Rightarrow> salesStats list" where
  "salesGroup docs =
     (if docs = [] then []
      else [\<lparr>totalTransactions = length docs,
             totalRevenue = sum_list (map amount docs),
             avgTransactionValue = avg (map amount docs),
             successfulTransactions = length (filter (\<lambda>d. saStatus d = ''completed'') docs),
             failedTransactions = length (filter (\<lambda>d. saStatus d = ''failed'') docs),
             refundedTransactions = length (filter (\<lambda>d. saStatus d = ''refunded'') docs),
             totalRefunds = sum_list (present (map refundAmount docs))\<rparr>])"

definition getSalesStats :: "dateLib \<Rightarrow> filters \<Rightarrow> salesAnalytics list \<Rightarrow> salesStats" where
  "getSalesStats dl f docs =
     (case salesGroup (filter (salesMatches (salesMatchStage dl f)) docs) of
        [] \<Rightarrow> \<lparr>totalTransactions = 0, totalRevenue = 0, avgTransactionValue = Some 0,
               successfulTransactions = 0, failedTransactions = 0, refundedTransactions = 0,
               totalRefunds = 0\<rparr>
      | row # _ \<Rightarrow> row)"

text \<open>
  A \<open>$group\<close> by a key: one row per distinct key of the matching documents, each computed
  from the documents of that key, followed by \<open>$sort\<close> on a number, largest first.
\<close>

definition groupBy :: "('d \<Rightarrow> 'k) \<Rightarrow> ('k \<Rightarrow> 'd list \<Rightarrow> 'r) \<Rightarrow> 'd list \<Rightarrow> 'r list" where
  "groupBy key row docs =
     map (\<lambda>k. row k (filter (\<lambda>d. key d = k) docs)) (remdups (map key docs))"

definition sortDesc :: "('r \<Rightarrow> rat) \<Rightarrow> 'r list \<Rightarrow> 'r list" where
  "sortDesc by rows = sort_key (\<lambda>r. - by r) rows"

record planRevenue =
  prPlan :: string
  prTotalRevenue :: rat
  prTransactionCount :: nat
  prAvgTransactionValue :: "rat option"

text \<open>
  \<open>getRevenueByPlan\<close>: the match stage starts as \<open>{ status: 'completed' }\<close> and takes only
  the date range from the filters.
\<close>

definition revenueMatches :: "dateLib \<Rightarrow> filters \<Rightarrow> salesAnalytics \<Rightarrow> bool" where
  "revenueMatches dl f d =
     (saStatus d = ''completed''
      \<and> fromDate (dateCriterion dl f ''startDate'') (saCreatedAt d)
      \<and> toDate (dateCriterion dl f ''endDate'') (saCreatedAt d))"

definition getRevenueByPlan :: "dateLib \<Rightarrow> filters \<Rightarrow> salesAnalytics list \<Rightarrow> planRevenue list" where
  "getRevenueByPlan dl f docs =
     sortDesc prTotalRevenue
       (groupBy saPlan
          (\<lambda>k ds. \<lparr>prPlan = k, prTotalRevenue = sum_list (map amount ds),
                   prTransactionCount = length ds, prAvgTransactionValue = avg (map amount ds)\<rparr>)
          (filter (revenueMatches dl f) docs))"

record userRevenue =
  urUserId :: string
  urTotalRevenue :: rat
  urTransactionCount :: nat

text \<open>\<open>getTopRevenue(limit)\<close> of routes/metrics.js: \<open>$match: { status: 'completed' }\<close>.\<close>

definition getTopRevenue :: "nat \<Rightarrow> salesAnalytics list \<Rightarrow> userRevenue list" where
  "getTopRevenue limit docs =
     take limit
       (sortDesc urTotalRevenue
          (groupBy saUserId
             (\<lambda>k ds. \<lparr>urUserId = k, urTotalRevenue = sum_list (map amount ds),
                      urTransactionCount = length ds\<rparr>)
             (filter (\<lambda>d. saStatus d = ''completed'') docs)))"

text \<open>
  \<open>getMRR(date)\<close>: completed subscriptions created within the month of \<open>date\<close>; the two
  bounds of the month are computed by the runtime's \<open>Date\<close>.
\<close>

definition getMRR :: "int \<Rightarrow> int \<Rightarrow> salesAnalytics list \<Rightarrow> rat \<times> nat" where
  "getMRR startOfMonth endOfMonth docs =
     (let ds = filter (\<lambda>d. saStatus d = ''completed'' \<and> saType d = ''subscription''
                            \<and> startOfMonth \<le> saCreatedAt d \<and> saCreatedAt d \<le> endOfMonth) docs
      in if ds = [] then (0, 0) else (sum_list (map amount ds), length ds))"

section \<open>GET /ai-tracking/history\<close>

text \<open>The query parameters the route reads; \<open>page\<close> and \<open>limit\<close> as \<open>parseInt\<close> reads them.\<close>

record historyQuery =
  hqPage :: "int option"
  hqLimit :: "int option"
  hqStatus :: "string option"
  hqModel :: "string option"
  hqFeature :: "string option"

definition validateHistory :: "historyQuery \<Rightarrow> string list" where
  "validateHistory q =
     check (case hqPage q of None \<Rightarrow> True | Some p \<Rightarrow> 1 \<le> p) ''page''
     @ check (case hqLimit q of None \<Rightarrow> True | Some l \<Rightarrow> 1 \<le> l \<and> l \<le> 100) ''limit''"

text \<open>\<open>parseInt(req.query.page) || 1\<close>.\<close>

definition parsedOr :: "int option \<Rightarrow> int \<Rightarrow> int" where
  "parsedOr v d = (case v of None \<Rightarrow> d | Some n \<Rightarrow> if n = 0 then d else n)"

text \<open>\<open>if (req.query.status) query.status = req.query.status\<close>, applied to a document.\<close>

definition queryIs :: "string option \<Rightarrow> string \<Rightarrow> bool" where
  "queryIs c v = (case c of None \<Rightarrow> True | Some x \<Rightarrow> if x = [] then True else v = x)"

text \<open>A document as \<open>select('-prompt -response')\<close> returns it: every field but those two.\<close>

record aiRequestView =
  vUserId :: string
  vRequestId :: string
  vModel :: string
  vTokens :: tokens
  vCost :: rat
  vStatus :: string
  vError :: "string option"
  vMetadata :: metadata
  vPerformance :: performance
  vUserPlan :: string
  vCreatedAt :: int
  vUpdatedAt :: int

definition selectWithoutText :: "aiRequest \<Rightarrow> aiRequestView" where
  "selectWithoutText d =
     \<lparr>vUserId = userId d, vRequestId = requestId d, vModel = model d, vTokens = tokens d,
      vCost = cost d, vStatus = status d, vError = error d, vMetadata = metadata d,
      vPerformance = performance d, vUserPlan = userPlan d, vCreatedAt = createdAt d,
      vUpdatedAt = updatedAt d\<rparr>"

record pagination =
  pgPage :: int
  pgLimit :: int
  pgTotal :: nat
  pgPages :: int

text \<open>
  \<^verbatim>\<open>
  const query = { userId: req.user.id };
  if (req.query.status) query.status = req.query.status;
  if (req.query.model) query.model = req.query.model;
  if (req.query.feature) query['metadata.feature'] = req.query.feature;
  \<close>
\<close>

definition historyMatches :: "string \<Rightarrow> historyQuery \<Rightarrow> aiRequest \<Rightarrow> bool" where
  "historyMatches uid q d =
     (userId d = uid \<and> queryIs (hqStatus q) (status d) \<and> queryIs (hqModel q) (model d)
      \<and> queryIs (hqFeature q) (feature (metadata d)))"

text \<open>
  \<^verbatim>\<open>
  const requests = await AIRequest.find(query)
      .sort({ createdAt: -1 }).skip(skip).limit(limit)
      .select('-prompt -response') // Exclude sensitive data
      .lean();
  const total = await AIRequest.countDocuments(query);
  \<close>
\<close>

definition getHistory ::
  "env \<Rightarrow> caller \<Rightarrow> historyQuery \<Rightarrow> state \<Rightarrow> (aiRequestView list \<times> pagination) answer" where
  "getHistory e u q s =
     (let errors = validateHistory q in
      if errors \<noteq> [] then BadRequest errors
      else if findFails e then ServerError
      else
        (let page = parsedOr (hqPage q) 1;
             limit = parsedOr (hqLimit q) 20;
             skip = (page - 1) * limit;
             found = filter (historyMatches (callerId u) q) (aiRequests s);
             requests = map selectWithoutText
                          (take (nat limit) (drop (nat skip) (sort_key (\<lambda>d. - createdAt d) found)))
         in Ok (requests,
                \<lparr>pgPage = page, pgLimit = limit, pgTotal = length found,
                 pgPages = \<lceil>(of_nat (length found) :: rat) / of_int limit\<rceil>\<rparr>)))"

section \<open>PerformanceMetrics.getPerformanceStats (models/PerformanceMetrics.js)\<close>

record performanceMetrics =
  pmService :: string
  pmEndpoint :: string
  pmMethod :: string
  pmUserId :: "string option"
  pmRequestId :: string
  statusCode :: int
  responseTime :: rat
  requestSize :: rat
  responseSize :: rat
  cpuUsage :: "rat option"
  memoryPercentage :: "rat option"
  diskPercentage :: "rat option"
  pmTimestamp :: int

record perfMatch =
  pfService :: "jsval option"
  pfEndpoint :: "jsval option"
  pfMethod :: "jsval option"
  pfStatusCode :: "jsval option"
  pfUserId :: "jsval option"
  pfTimestampGte :: "int option"
  pfTimestampLte :: "int option"

definition perfMatchStage :: "dateLib \<Rightarrow> filters \<Rightarrow> perfMatch" where
  "perfMatchStage dl f =
     \<lparr>pfService = criterion f ''service'', pfEndpoint = criterion f ''endpoint'',
      pfMethod = criterion f ''method'', pfStatusCode = criterion f ''statusCode'',
      pfUserId = criterion f ''userId'',
      pfTimestampGte = dateCriterion dl f ''startDate'', pfTimestampLte = dateCriterion dl f ''endDate''\<rparr>"

definition perfMatches :: "perfMatch \<Rightarrow> performanceMetrics \<Rightarrow> bool" where
  "perfMatches m d =
     (fieldIs (pfService m) (pmService d) \<and> fieldIs (pfEndpoint m) (pmEndpoint d)
      \<and> fieldIs (pfMethod m) (pmMethod d)
      \<and> (case pfStatusCode m of None \<Rightarrow> True | Some x \<Rightarrow> x = Num (of_int (statusCode d)))
      \<and> optIdIs (pfUserId m) (pmUserId d)
      \<and> fromDate (pfTimestampGte m) (pmTimestamp d) \<and> toDate (pfTimestampLte m) (pmTimestamp d))"

record perfStats =
  psTotalRequests :: nat
  avgResponseTime :: "rat option"
  minResponseTime :: "rat option"
  maxResponseTime :: "rat option"
  p95ResponseTime :: "rat option"
  p99ResponseTime :: "rat option"
  psSuccessCount :: nat
  psErrorCount :: nat
  totalRequestSize :: rat
  totalResponseSize :: rat
  avgCpuUsage :: "rat option"
  avgMemoryUsage :: "rat option"
  avgDiskUsage :: "rat option"

text \<open>\<open>$min\<close> and \<open>$max\<close> over the values of a field.\<close>

fun least :: "rat list \<Rightarrow> rat option" where
  "least [] = None"
| "least (x # xs) = Some (foldl min x xs)"

fun greatest :: "rat list \<Rightarrow> rat option" where
  "greatest [] = None"
| "greatest (x # xs) = Some (foldl max x xs)"

text \<open>
  The percentile accumulator as the \<open>$group\<close> stage writes it,
  \<open>{ $percentile: { input: '$responseTime', p: 95 } }\<close>: an input expression, \<open>p\<close> given
  as one number, and no \<open>method\<close>.
\<close>

datatype percentileP = OneNumber rat | Numbers "rat list"

record percentileSpec =
  pcInput :: string
  pcP :: percentileP
  pcMethod :: "string option"

definition sentPercentile :: "rat \<Rightarrow> percentileSpec" where
  "sentPercentile p = \<lparr>pcInput = ''$responseTime'', pcP = OneNumber p, pcMethod = None\<rparr>"

text \<open>
  The store parses a pipeline before it runs it. Its \<open>$percentile\<close> takes \<open>p\<close> as an array
  of numbers from 0 to 1 and requires \<open>method\<close> to be \<open>'approximate'\<close>; a server older
  than 7.0 does not know the operator at all. A pipeline that does not parse makes
  \<open>aggregate()\<close> reject.
\<close>

definition percentileParses :: "percentileSpec \<Rightarrow> bool" where
  "percentileParses a =
     ((case pcP a of
         Numbers ps \<Rightarrow> ps \<noteq> [] \<and> list_all (\<lambda>p. 0 \<le> p \<and> p \<le> 1) ps
       | OneNumber p \<Rightarrow> False)
      \<and> pcMethod a = Some ''approximate'')"

text \<open>
  The \<open>$group\<close> stage of a pipeline that the store has accepted. What the accumulator
  computes is the store's, so it is the parameter \<open>percentile\<close> here.
\<close>

definition perfGroup ::
  "(percentileSpec \<Rightarrow> rat list \<Rightarrow> rat option) \<Rightarrow> performanceMetrics list \<Rightarrow> perfStats list" where
  "perfGroup percentile docs =
     (if docs = [] then []
      else [\<lparr>psTotalRequests = length docs,
             avgResponseTime = avg (map responseTime docs),
             minResponseTime = least (map responseTime docs),
             maxResponseTime = greatest (map responseTime docs),
             p95ResponseTime = percentile (sentPercentile 95) (map responseTime docs),
             p99ResponseTime = percentile (sentPercentile 99) (map responseTime docs),
             psSuccessCount = length (filter (\<lambda>d. statusCode d < 400) docs),
             psErrorCount = length (filter (\<lambda>d. statusCode d \<ge> 400) docs),
             totalRequestSize = sum_list (map requestSize docs),
             totalResponseSize = sum_list (map responseSize docs),
             avgCpuUsage = avg (present (map cpuUsage docs)),
             avgMemoryUsage = avg (present (map memoryPercentage docs)),
             avgDiskUsage = avg (present (map diskPercentage docs))\<rparr>])"

text \<open>
  \<open>getPerformanceStats\<close>: \<open>const stats = await this.aggregate([...])\<close>, then
  \<open>return stats[0] || { totalRequests: 0, ... }\<close>. The function has no \<open>catch\<close>: when
  \<open>aggregate()\<close> rejects, so does the function, which is the result \<open>None\<close>, and the
  fallback object is not reached.
\<close>

definition getPerformanceStats ::
  "(percentileSpec \<Rightarrow> rat list \<Rightarrow> rat option) \<Rightarrow> dateLib \<Rightarrow> filters \<Rightarrow> performanceMetrics list
   \<Rightarrow> perfStats option" where
  "getPerformanceStats percentile dl f docs =
     (if percentileParses (sentPercentile 95) \<and> percentileParses (sentPercentile 99) then
        Some (case perfGroup percentile (filter (perfMatches (perfMatchStage dl f)) docs) of
                [] \<Rightarrow> \<lparr>psTotalRequests = 0, avgResponseTime = Some 0, minResponseTime = Some 0,
                       maxResponseTime = Some 0, p95ResponseTime = Some 0, p99ResponseTime = Some 0,
                       psSuccessCount = 0, psErrorCount = 0, totalRequestSize = 0,
                       totalResponseSize = 0, avgCpuUsage = Some 0, avgMemoryUsage = Some 0,
                       avgDiskUsage = Some 0\<rparr>
              | row # _ \<Rightarrow> row)
      else None)"

section \<open>UserEngagement.getEngagementStats (models/UserEngagement.js)\<close>

record userEngagement =
  ueUserId :: string
  ueSessionId :: string
  ueEvent :: string
  ueFeature :: "string option"
  ueUserPlan :: string
  ueValue :: rat
  timeOnPage :: "rat option"
  scrollDepth :: "rat option"
  ueTimestamp :: int

record engagementMatch =
  emUserId :: "jsval option"
  emEvent :: "jsval option"
  emFeature :: "jsval option"
  emUserPlan :: "jsval option"
  emTimestampGte :: "int option"
  emTimestampLte :: "int option"

definition engagementMatchStage :: "dateLib \<Rightarrow> filters \<Rightarrow> engagementMatch" where
  "engagementMatchStage dl f =
     \<lparr>emUserId = criterion f ''userId'', emEvent = criterion f ''event'',
      emFeature = criterion f ''feature'', emUserPlan = criterion f ''userPlan'',
      emTimestampGte = dateCriterion dl f ''startDate'', emTimestampLte = dateCriterion dl f ''endDate''\<rparr>"

definition engagementMatches :: "engagementMatch \<Rightarrow> userEngagement \<Rightarrow> bool" where
  "engagementMatches m d =
     (idIs (emUserId m) (ueUserId d) \<and> fieldIs (emEvent m) (ueEvent d)
      \<and> optFieldIs (emFeature m) (ueFeature d) \<and> fieldIs (emUserPlan m) (ueUserPlan d)
      \<and> fromDate (emTimestampGte m) (ueTimestamp d) \<and> toDate (emTimestampLte m) (ueTimestamp d))"

record engagementStats =
  totalEvents :: nat
  uniqueUsers :: nat
  uniqueSessions :: nat
  totalValue :: rat
  avgTimeOnPage :: "rat option"
  avgScrollDepth :: "rat option"

definition engagementGroup :: "userEngagement list \<Rightarrow> engagementStats list" where
  "engagementGroup docs =
     (if docs = [] then []
      else [\<lparr>totalEvents = length docs,
             uniqueUsers = length (remdups (map ueUserId docs)),
             uniqueSessions = length (remdups (map ueSessionId docs)),
             totalValue = sum_list (map ueValue docs),
             avgTimeOnPage = avg (present (map timeOnPage docs)),
             avgScrollDepth = avg (present (map scrollDepth docs))\<rparr>])"

definition getEngagementStats :: "dateLib \<Rightarrow> filters \<Rightarrow> userEngagement list \<Rightarrow> engagementStats" where
  "getEngagementStats dl f docs =
     (case engagementGroup (filter (engagementMatches (engagementMatchStage dl f)) docs) of
        [] \<Rightarrow> \<lparr>totalEvents = 0, uniqueUsers = 0, uniqueSessions = 0, totalValue = 0,
               avgTimeOnPage = Some 0, avgScrollDepth = Some 0\<rparr>
      | row # _ \<Rightarrow> row)"

section \<open>Ratios of the dashboard (routes/metrics.js)\<close>

text \<open>
  \<^verbatim>\<open>
  successRate: aiStats.totalRequests > 0 ? (aiStats.successCount / aiStats.totalRequests) * 100 : 0
  errorRate: performanceStats.totalRequests > 0
      ? (performanceStats.errorCount / performanceStats.totalRequests) * 100 : 0
  successRate: salesStats.totalTransactions > 0
      ? (salesStats.successfulTransactions / salesStats.totalTransactions) * 100 : 0
  \<close>
\<close>

text \<open>
  The quotient of two numbers. With a divisor of \<open>0\<close> it is \<open>NaN\<close> or an infinity, which
  is no finite number: \<open>None\<close>.
\<close>

definition quotient :: "rat \<Rightarrow> rat \<Rightarrow> rat option" where
  "quotient a b = (if b = 0 then None else Some (a / b))"

definition ratio :: "nat \<Rightarrow> nat \<Rightarrow> rat option" where
  "ratio part whole =
     (if whole > 0 then map_option (\<lambda>q. q * 100) (quotient (of_nat part) (of_nat whole))
      else Some 0)"

definition aiSuccessRate :: "aiStats \<Rightarrow> rat option" where
  "aiSuccessRate st = ratio (successCount st) (totalRequests st)"

definition perfErrorRate :: "perfStats \<Rightarrow> rat option" where
  "perfErrorRate st = ratio (psErrorCount st) (psTotalRequests st)"

definition salesSuccessRate :: "salesStats \<Rightarrow> rat option" where
  "salesSuccessRate st = ratio (successfulTransactions st) (totalTransactions st)"

section \<open>Reading the state\<close>

text \<open>
  The document that the update route's \<open>findOne({ requestId, userId })\<close> reads from a
  collection, if there is one.
\<close>

definition stored :: "string \<Rightarrow> string \<Rightarrow> aiRequest list \<Rightarrow> aiRequest option" where
  "stored rid uid docs = map_option snd (findOne (\<lambda>d. requestId d = rid \<and> userId d = uid) docs)"

text \<open>
  The replies of the update route that are sent after the document was saved: the 200,
  and the 500 of a throw from the registry updates that follow the save.
\<close>

definition written :: "reply \<Rightarrow> bool" where
  "written r = (case r of Updated x y \<Rightarrow> True | InternalError MetricsError \<Rightarrow> True | _ \<Rightarrow> False)"

text \<open>
  Two documents that differ at most in their prompt and their response: the second is
  the first with these two fields replaced.
\<close>

definition sameButTexts :: "aiRequest \<Rightarrow> aiRequest \<Rightarrow> bool" where
  "sameButTexts a b = (b = a\<lparr>prompt := prompt b, response := response b\<rparr>)"

section \<open>Sample data\<close>

definition clock :: "int \<Rightarrow> env" where
  "clock t = \<lparr>now = t, findFails = False, saveFails = False\<rparr>"

definition alice :: caller where
  "alice = \<lparr>callerId = ''alice'', callerRole = ''user''\<rparr>"

definition bob :: caller where
  "bob = \<lparr>callerId = ''bob'', callerRole = ''user''\<rparr>"

definition noHeaders :: headers where
  "noHeaders = \<lparr>hUserAgent = None, hIp = None, hSessionId = None, hSource = None\<rparr>"

definition emptyRegistry :: registry where
  "emptyRegistry =
     \<lparr>ai_requests_total = (\<lambda>l. 0), ai_request_duration_seconds = (\<lambda>l. []),
      ai_request_tokens_total = (\<lambda>l. 0), ai_request_cost_total = (\<lambda>l. 0),
      sales_transactions_total = (\<lambda>l. 0), sales_revenue_total = (\<lambda>l. 0)\<rparr>"

definition emptyState :: state where
  "emptyState = \<lparr>aiRequests = [], sales = [], register = emptyRegistry\<rparr>"

definition trackR1 :: trackBody where
  "trackR1 = \<lparr>bRequestId = Some ''r1'', bModel = Some ''gpt-4'', bPrompt = Some ''describe'',
              bFeature = None, bComplexity = None, bLanguage = None, bUserPlan = None\<rparr>"

definition statusOnly :: "string \<Rightarrow> updateBody" where
  "statusOnly st = \<lparr>uStatus = Some st, uResponse = None, uTokens = None, uCost = None, uError = None\<rparr>"

text \<open>Alice has tracked request \<open>r1\<close> at time 1000; then it failed at time 5000.\<close>

definition tracked :: state where
  "tracked = fst (postTrack (clock 1000) alice noHeaders trackR1 emptyState)"

definition failedAt5000 :: state where
  "failedAt5000 = fst (putUpdate (clock 5000) alice ''r1'' (statusOnly ''failed'') tracked)"

text \<open>A date library that accepts every string; no sample filter carries a date.\<close>

definition anyDates :: dateLib where
  "anyDates = \<lparr>isISO8601 = (\<lambda>s. True), newDate = (\<lambda>v. 0)\<rparr>"

text \<open>
  Two transactions of Alice: a completed subscription of 30 and a failed one-time payment
  of 50.
\<close>

definition completedSale :: salesAnalytics where
  "completedSale =
     \<lparr>saUserId = ''alice'', transactionId = ''t1'', saType = ''subscription'', saPlan = ''basic'',
      amount = 30, currency = ''USD'', saStatus = ''completed'', paymentMethod = Some ''stripe'',
      saSource = ''web'', refundAmount = None, saCreatedAt = 1000, saUpdatedAt = 1000\<rparr>"

definition failedSale :: salesAnalytics where
  "failedSale =
     \<lparr>saUserId = ''alice'', transactionId = ''t2'', saType = ''one_time'', saPlan = ''basic'',
      amount = 50, currency = ''USD'', saStatus = ''failed'', paymentMethod = Some ''stripe'',
      saSource = ''web'', refundAmount = None, saCreatedAt = 2000, saUpdatedAt = 2000\<rparr>"

definition twoSales :: state where
  "twoSales = emptyState\<lparr>sales := [completedSale, failedSale]\<rparr>"

text \<open>A completed refund of 20, booked as a negative amount.\<close>

definition refundBody :: salesBody where
  "refundBody =
     \<lparr>sbTransactionId = Some ''t9'', sbType = Some ''refund'', sbAmount = Some (- 20),
      sbCurrency = None, sbStatus = Some ''completed'', sbPaymentMethod = None, sbPlan = None,
      sbRefundAmount = None\<rparr>"

definition loginSample :: performanceMetrics where
  "loginSample =
     \<lparr>pmService = ''auth'', pmEndpoint = ''/login'', pmMethod = ''POST'', pmUserId = Some ''alice'',
      pmRequestId = ''p1'', statusCode = 500, responseTime = 2500, requestSize = 10,
      responseSize = 20, cpuUsage = None, memoryPercentage = None, diskPercentage = None,
      pmTimestamp = 1000\<rparr>"

definition loginEvent :: userEngagement where
  "loginEvent =
     \<lparr>ueUserId = ''alice'', ueSessionId = ''s1'', ueEvent = ''login'', ueFeature = None,
      ueUserPlan = ''free'', ueValue = 1, timeOnPage = Some 12, scrollDepth = None,
      ueTimestamp = 1000\<rparr>"

text \<open>The first page of a history, with no further criterion.\<close>

definition firstPage :: historyQuery where
  "firstPage = \<lparr>hqPage = None, hqLimit = None, hqStatus = None, hqModel = None, hqFeature = None\<rparr>"

text \<open>The state \<open>tracked\<close> with other texts in the prompt and the response of every request.\<close>

definition retexted :: state where
  "retexted =
     tracked\<lparr>aiRequests :=
               map (\<lambda>d. d\<lparr>prompt := ''another prompt'', response := Some ''an answer''\<rparr>)
                 (aiRequests tracked)\<rparr>"

section \<open>Properties\<close>

subsection \<open>Period comparison\<close>





subsection \<open>The store\<close>

lemma findOneFrom_None: "findOneFrom i P xs = None \<longleftrightarrow> (\<forall>x\<in>set xs. \<not> P x)"
  by (induction xs arbitrary: i) auto

lemma findOneFrom_Some:
  "findOneFrom i P xs = Some (j, x) \<Longrightarrow> i \<le> j \<and> j - i < length xs \<and> xs ! (j - i) = x \<and> P x"
proof (induction xs arbitrary: i)
  case Nil
  then show ?case by simp
next
  case (Cons a xs)
  show ?case
  proof (cases "P a")
    case True
    with Cons.prems show ?thesis by auto
  next
    case False
    with Cons.prems have "findOneFrom (Suc i) P xs = Some (j, x)" by simp
    from Cons.IH[OF this] show ?thesis by (auto simp: nth_Cons')
  qed
qed

lemma findOneFrom_update:
  "findOneFrom i P xs = Some (j, x) \<Longrightarrow> P y \<Longrightarrow> findOneFrom i P (xs[j - i := y]) = Some (j, y)"
proof (induction xs arbitrary: i)
  case Nil
  then show ?case by simp
next
  case (Cons a xs)
  show ?case
  proof (cases "P a")
    case True
    with Cons.prems show ?thesis by auto
  next
    case False
    with Cons.prems have f: "findOneFrom (Suc i) P xs = Some (j, x)" by simp
    from findOneFrom_Some[OF f] have "Suc i \<le> j" by simp
    then have "j - i = Suc (j - Suc i)" by simp
    with Cons.IH[OF f Cons.prems(2)] False show ?thesis by simp
  qed
qed

lemma findOne_None: "findOne P xs = None \<longleftrightarrow> (\<forall>x\<in>set xs. \<not> P x)"
  by (simp add: findOne_def findOneFrom_None)

lemma findOne_Some: "findOne P xs = Some (j, x) \<Longrightarrow> j < length xs \<and> xs ! j = x \<and> P x"
  using findOneFrom_Some[of 0 P xs j x] by (simp add: findOne_def)

lemma findOne_update: "findOne P xs = Some (j, x) \<Longrightarrow> P y \<Longrightarrow> findOne P (xs[j := y]) = Some (j, y)"
  using findOneFrom_update[of 0 P xs j x y] by (simp add: findOne_def)

lemma trackCheck_passes:
  assumes "trackCheck e b s = Inr t"
  shows "bRequestId b = Some (tRequestId t) \<and> bModel b = Some (tModel t)
         \<and> bPrompt b = Some (tPrompt t)
         \<and> tFeature t = withDefault (bFeature b) ''other''
         \<and> tComplexity t = withDefault (bComplexity b) ''medium''
         \<and> tLanguage t = withDefault (bLanguage b) ''en''
         \<and> tUserPlan t = withDefault (bUserPlan b) ''free''
         \<and> findOne (\<lambda>d. requestId d = tRequestId t) (aiRequests s) = None"
  using assms
  by (auto simp: trackCheck_def Let_def split: if_splits option.splits)
     (metis not_Some_eq old.prod.exhaust)

lemma trackSave_created:
  assumes "trackSave e u h t s = (s', Created rid)"
  shows "rid = tRequestId t
         \<and> aiRequests s' = aiRequests s @ [preSave (now e)
               (newAIRequest (now e) u h (tRequestId t) (tModel t) (tPrompt t) (tFeature t)
                  (tComplexity t) (tLanguage t) (tUserPlan t))]
         \<and> sales s' = sales s
         \<and> register s' = incrementRequest (register s) (tModel t) ''pending'' (tFeature t) (tUserPlan t)"
  using assms
  by (auto simp: trackSave_def saveNew_def preSave_def newAIRequest_def
           split: if_splits option.splits)

lemma trackSave_not_created:
  assumes "trackSave e u h t s = (s', r)" and "\<forall>rid. r \<noteq> Created rid"
  shows "s' = s"
  using assms
  by (auto simp: trackSave_def split: option.splits)

lemma postTrack_created:
  assumes "postTrack e u h b s = (s', Created rid)"
  shows "\<exists>mdl prm. bRequestId b = Some rid \<and> bModel b = Some mdl \<and> bPrompt b = Some prm
          \<and> aiRequests s' = aiRequests s @ [preSave (now e)
                (newAIRequest (now e) u h rid mdl prm (withDefault (bFeature b) ''other'')
                   (withDefault (bComplexity b) ''medium'') (withDefault (bLanguage b) ''en'')
                   (withDefault (bUserPlan b) ''free''))]
          \<and> sales s' = sales s
          \<and> register s' = incrementRequest (register s) mdl ''pending''
                (withDefault (bFeature b) ''other'') (withDefault (bUserPlan b) ''free'')"
proof (cases "trackCheck e b s")
  case (Inl r)
  with assms show ?thesis
    by (auto simp: postTrack_def trackCheck_def Let_def split: if_splits option.splits)
next
  case (Inr t)
  with assms have "trackSave e u h t s = (s', Created rid)" by (simp add: postTrack_def)
  from trackSave_created[OF this] trackCheck_passes[OF Inr] show ?thesis by simp
qed

lemma postTrack_not_created:
  assumes "postTrack e u h b s = (s', r)" and "\<forall>rid. r \<noteq> Created rid"
  shows "s' = s"
proof (cases "trackCheck e b s")
  case (Inl r')
  with assms show ?thesis by (simp add: postTrack_def)
next
  case (Inr t)
  with assms have "trackSave e u h t s = (s', r)" by (simp add: postTrack_def)
  from trackSave_not_created[OF this assms(2)] show ?thesis .
qed

lemma assignFields_keeps:
  "requestId (assignFields st b d) = requestId d"
  "userId (assignFields st b d) = userId d"
  "status (assignFields st b d) = st"
  "performance (assignFields st b d) = performance d"
  by (simp_all add: assignFields_def Let_def split: option.splits)

lemma calculatePerformance_keeps:
  assumes "calculatePerformance date st d = Some d'"
  shows "requestId d' = requestId d" "userId d' = userId d" "status d' = status d"
    "tokens d' = tokens d" "startTime (performance d') = startTime (performance d)"
  using assms by (auto simp: calculatePerformance_def split: if_splits option.splits)

lemma preSave_keeps:
  "requestId (preSave date d) = requestId d"
  "userId (preSave date d) = userId d"
  "status (preSave date d) = status d"
  "performance (preSave date d) = performance d"
  "tokInput (tokens (preSave date d)) = tokInput (tokens d)"
  "tokOutput (tokens (preSave date d)) = tokOutput (tokens d)"
  "tokTotal (tokens (preSave date d)) = Some (orZero (tokInput (tokens d)) + orZero (tokOutput (tokens d)))"
  by (simp_all add: preSave_def)

lemma putUpdate_saved:
  assumes run: "putUpdate e u rid b s = (s', r)"
    and r: "r = Updated x y \<or> r = InternalError MetricsError"
  shows "\<exists>st i found changed.
           uStatus b = Some st
           \<and> findOne (\<lambda>d. requestId d = rid \<and> userId d = callerId u) (aiRequests s) = Some (i, found)
           \<and> calculatePerformance (now e) st (assignFields st b found) = Some changed
           \<and> aiRequests s' = (aiRequests s)[i := preSave (now e) changed]
           \<and> sales s' = sales s
           \<and> (case updateMetrics (register s) st (preSave (now e) changed) of
                 Inl reg \<Rightarrow> register s' = reg \<and> r = InternalError MetricsError
               | Inr reg \<Rightarrow> register s' = reg \<and> r = Updated rid st)"
proof -
  have v: "validateUpdate b = []"
    using run r by (cases "validateUpdate b = []") (auto simp: putUpdate_def)
  obtain st where st: "uStatus b = Some st"
    using run r v by (cases "uStatus b") (auto simp: putUpdate_def)
  have ff: "\<not> findFails e"
    using run r v st by (cases "findFails e") (auto simp: putUpdate_def)
  obtain i found where f: "findOne (\<lambda>d. requestId d = rid \<and> userId d = callerId u) (aiRequests s) = Some (i, found)"
    using run r v st ff
    by (cases "findOne (\<lambda>d. requestId d = rid \<and> userId d = callerId u) (aiRequests s)")
       (auto simp: putUpdate_def)
  obtain changed where c: "calculatePerformance (now e) st (assignFields st b found) = Some changed"
    using run r v st ff f
    by (cases "calculatePerformance (now e) st (assignFields st b found)") (auto simp: putUpdate_def)
  have sv: "saveAt e (aiRequests s) i changed
              = Some ((aiRequests s)[i := preSave (now e) changed], preSave (now e) changed)"
    using run r v st ff f c
    by (cases "saveAt e (aiRequests s) i changed")
       (auto simp: putUpdate_def saveAt_def split: if_splits)
  have rid: "requestId (preSave (now e) changed) = rid"
    using findOne_Some[OF f] calculatePerformance_keeps(1)[OF c]
    by (simp add: preSave_keeps assignFields_keeps)
  have sta: "status (preSave (now e) changed) = st"
    using calculatePerformance_keeps(3)[OF c] by (simp add: preSave_keeps assignFields_keeps)
  show ?thesis
    using run v st ff f c sv rid sta
    by (cases "updateMetrics (register s) st (preSave (now e) changed)")
       (auto simp: putUpdate_def)
qed

lemma putUpdate_unchanged:
  assumes run: "putUpdate e u rid b s = (s', r)"
    and "\<forall>x y. r \<noteq> Updated x y" and "r \<noteq> InternalError MetricsError"
  shows "s' = s"
proof (cases "validateUpdate b = []")
  case False
  with run show ?thesis by (auto simp: putUpdate_def)
next
  case v: True
  show ?thesis
  proof (cases "uStatus b")
    case None
    with run v show ?thesis by (auto simp: putUpdate_def)
  next
    case st: (Some st)
    show ?thesis
    proof (cases "findFails e")
      case True
      with run v st show ?thesis by (auto simp: putUpdate_def)
    next
      case ff: False
      show ?thesis
      proof (cases "findOne (\<lambda>d. requestId d = rid \<and> userId d = callerId u) (aiRequests s)")
        case None
        with run v st ff show ?thesis by (auto simp: putUpdate_def)
      next
        case (Some p)
        obtain i found where p: "p = (i, found)" by (cases p)
        show ?thesis
        proof (cases "calculatePerformance (now e) st (assignFields st b found)")
          case None
          with run v st ff Some p show ?thesis by (auto simp: putUpdate_def)
        next
          case c: (Some changed)
          show ?thesis
          proof (cases "saveAt e (aiRequests s) i changed")
            case None
            with run v st ff Some p c show ?thesis by (auto simp: putUpdate_def)
          next
            case sv: (Some q)
            obtain docs saved where q: "q = (docs, saved)" by (cases q)
            show ?thesis
              using run v st ff Some p c sv q assms(2,3)
              by (cases "updateMetrics (register s) st saved") (auto simp: putUpdate_def)
          qed
        qed
      qed
    qed
  qed
qed



lemma written_cases: "written r \<Longrightarrow> (\<exists>x y. r = Updated x y) \<or> r = InternalError MetricsError"
  by (cases r) (auto simp: written_def split: thrown.splits)

lemma putUpdate_stored:
  assumes run: "putUpdate e u rid b s = (s', r)" and w: "written r"
  shows "\<exists>st found changed.
           uStatus b = Some st
           \<and> stored rid (callerId u) (aiRequests s) = Some found
           \<and> calculatePerformance (now e) st (assignFields st b found) = Some changed
           \<and> stored rid (callerId u) (aiRequests s') = Some (preSave (now e) changed)"
proof -
  from written_cases[OF w] obtain x y where "r = Updated x y \<or> r = InternalError MetricsError"
    by blast
  from putUpdate_saved[OF run this] obtain st i found changed where
    st: "uStatus b = Some st"
    and f: "findOne (\<lambda>d. requestId d = rid \<and> userId d = callerId u) (aiRequests s) = Some (i, found)"
    and c: "calculatePerformance (now e) st (assignFields st b found) = Some changed"
    and docs: "aiRequests s' = (aiRequests s)[i := preSave (now e) changed]"
    by blast
  have key: "requestId (preSave (now e) changed) = rid \<and> userId (preSave (now e) changed) = callerId u"
    using findOne_Some[OF f] calculatePerformance_keeps(1,2)[OF c]
    by (simp add: preSave_keeps assignFields_keeps)
  have "findOne (\<lambda>d. requestId d = rid \<and> userId d = callerId u) (aiRequests s')
          = Some (i, preSave (now e) changed)"
    unfolding docs using findOne_update[OF f, of "preSave (now e) changed"] key by simp
  with st f c show ?thesis by (auto simp: stored_def)
qed

subsection \<open>Evaluating the sample data\<close>

lemmas validation_defs =
  check_def isStringNotEmpty_def isIn_def optionalIsIn_def validateTrack_def validateUpdate_def
  modelEnum_def statusEnum_def featureEnum_def complexityEnum_def planEnum_def

lemmas sample_defs =
  clock_def alice_def bob_def noHeaders_def emptyState_def trackR1_def statusOnly_def

lemmas store_defs =
  findOne_def saveNew_def saveAt_def aiRequestSchemaValid_def newAIRequest_def preSave_def

lemmas track_defs = postTrack_def trackCheck_def trackSave_def

lemmas update_defs = putUpdate_def Let_def assignFields_def calculatePerformance_def updateMetrics_def
  incrementRequest_def recordDuration_def incrementTokens_def incrementCost_def incBy_def inc_def observe_def

lemmas filter_defs = criterion_def dateCriterion_def fieldIs_def optFieldIs_def idIs_def optIdIs_def
  fromDate_def toDate_def
  avg_def present_def optionalIsString_def optionalIsISO8601_def check_def

lemmas aiStats_defs = getStatsRoute_def validateStatsQuery_def getStats_def aiGroup_def aiMatches_def
  aiMatchStage_def

lemmas salesStats_defs = getSalesStats_def
  salesGroup_def salesMatches_def salesMatchStage_def getRevenueByPlan_def revenueMatches_def
  groupBy_def sortDesc_def

lemmas sales_defs = postSalesTrack_def validateSalesTrack_def newSalesAnalytics_def saveNewSale_def
  salesSchemaValid_def typeEnum_def salesStatusEnum_def paymentMethodEnum_def sourceEnum_def
  incrementTransaction_def incrementRevenue_def

lemmas history_defs = getHistory_def validateHistory_def parsedOr_def queryIs_def historyMatches_def
  selectWithoutText_def

lemma tracked_value:
  "tracked = \<lparr>aiRequests = [preSave 1000 (newAIRequest 1000 alice noHeaders ''r1'' ''gpt-4'' ''describe'' ''other'' ''medium'' ''en'' ''free'')],
      sales = [], register = incrementRequest emptyRegistry ''gpt-4'' ''pending'' ''other'' ''free''\<rparr>"
  by (simp add: tracked_def track_defs Let_def validation_defs sample_defs store_defs)

lemma tracked_reply:
  "snd (postTrack (clock 1000) alice noHeaders trackR1 emptyState) = Created ''r1''"
  by (simp add: track_defs Let_def validation_defs sample_defs store_defs)

lemma failedAt5000_reply:
  "snd (putUpdate (clock 5000) alice ''r1'' (statusOnly ''failed'') tracked) = Updated ''r1'' ''failed''"
  by (simp add: tracked_value putUpdate_def Let_def validation_defs sample_defs store_defs
        assignFields_def calculatePerformance_def updateMetrics_def)

subsection \<open>Duplicate natural keys\<close>

text \<open>
  When nothing runs between the two steps of the second create: after a create has
  succeeded, a create with the same \<open>requestId\<close> (a body that passes validation, a store
  that answers) gets the conflict reply and leaves the whole state as it was.
\<close>

lemma postTrack_duplicate_sequential:
  assumes first: "postTrack e1 u1 h1 b1 s = (s1, Created rid)"
    and same: "bRequestId b2 = Some rid"
    and valid: "validateTrack b2 = []"
    and up: "\<not> findFails e2"
  shows "postTrack e2 u2 h2 b2 s1 = (s1, Conflict)"
proof -
  from postTrack_created[OF first] obtain d where "aiRequests s1 = aiRequests s @ [d]"
    and "requestId d = rid"
    by (auto simp: preSave_keeps newAIRequest_def)
  then have "findOne (\<lambda>d. requestId d = rid) (aiRequests s1) \<noteq> None"
    by (auto simp: findOne_None)
  moreover obtain mdl prm where "bModel b2 = Some mdl" "bPrompt b2 = Some prm"
    using valid
    by (cases "bModel b2"; cases "bPrompt b2")
       (auto simp: validateTrack_def check_def isIn_def isStringNotEmpty_def split: if_splits)
  ultimately show ?thesis
    using same valid up by (simp add: track_defs Let_def)
qed

text \<open>
  The second step of a create never changes the state unless it answers 201: a save that
  the unique index rejects leaves the record of the first create and the counters alone.
\<close>

lemma trackSave_duplicate:
  assumes "tRequestId t \<in> set (map requestId (aiRequests s))"
  shows "trackSave e u h t s = (s, InternalError StoreError)"
  using assms by (simp add: trackSave_def saveNew_def newAIRequest_def)

text \<open>
  C3. Two creates of request \<open>r1\<close> that overlap. Bob's request does its duplicate check
  while the collection is still empty, and passes it. Alice's request then runs as a
  whole and is answered 201. Bob's \<open>save()\<close> now meets the unique index: the state stays
  as Alice's create left it, but the \<open>catch\<close> block answers Bob with the 500, not with
  the conflict reply.
\<close>

theorem postTrack_race_answers_500:
  "(case trackCheck (clock 1000) trackR1 emptyState of
      Inl r \<Rightarrow> False
    | Inr t \<Rightarrow>
        postTrack (clock 1000) alice noHeaders trackR1 emptyState = (tracked, Created ''r1'')
        \<and> trackSave (clock 1001) bob noHeaders t tracked = (tracked, InternalError StoreError))"
proof -
  have first: "postTrack (clock 1000) alice noHeaders trackR1 emptyState = (tracked, Created ''r1'')"
    using tracked_reply by (simp add: tracked_def prod_eq_iff)
  have "trackSave (clock 1001) bob noHeaders
          \<lparr>tRequestId = ''r1'', tModel = ''gpt-4'', tPrompt = ''describe'', tFeature = ''other'',
           tComplexity = ''medium'', tLanguage = ''en'', tUserPlan = ''free''\<rparr> tracked
        = (tracked, InternalError StoreError)"
    by (rule trackSave_duplicate) (simp add: tracked_value store_defs)
  with first show ?thesis
    by (simp add: trackCheck_def Let_def validation_defs sample_defs findOne_def)
qed

subsection \<open>Updates\<close>

text \<open>
  C4, as the code has it. An update that is answered with 200 and whose new status is
  \<open>completed\<close> or \<open>failed\<close> sets \<open>performance.endTime\<close> to the current time and
  \<open>performance.duration\<close> to that time minus the start time, whatever \<open>endTime\<close> was
  before; an update to any other status (\<open>processing\<close>, \<open>cancelled\<close>) leaves the
  \<open>performance\<close> object as it was.
\<close>

theorem putUpdate_sets_endTime:
  assumes run: "putUpdate e u rid b s = (s', Updated x st)"
  shows "\<exists>before after.
           stored rid (callerId u) (aiRequests s) = Some before
           \<and> stored rid (callerId u) (aiRequests s') = Some after
           \<and> (if st = ''completed'' \<or> st = ''failed''
              then endTime (performance after) = Some (now e)
                   \<and> (\<exists>started. startTime (performance before) = Some started
                         \<and> duration (performance after) = Some (now e - started))
              else performance after = performance before)"
proof -
  have w: "written (Updated x st)" by (simp add: written_def)
  from putUpdate_stored[OF run w] obtain st' found changed where
    st': "uStatus b = Some st'"
    and f: "stored rid (callerId u) (aiRequests s) = Some found"
    and c: "calculatePerformance (now e) st' (assignFields st' b found) = Some changed"
    and a: "stored rid (callerId u) (aiRequests s') = Some (preSave (now e) changed)"
    by blast
  from putUpdate_saved[OF run] obtain st2 changed2 where
    "uStatus b = Some st2"
    and m: "case updateMetrics (register s) st2 (preSave (now e) changed2) of
              Inl reg \<Rightarrow> register s' = reg \<and> Updated x st = InternalError MetricsError
            | Inr reg \<Rightarrow> register s' = reg \<and> Updated x st = Updated rid st2"
    by blast
  with st' have "st2 = st'" by simp
  with m have "st' = st"
    by (cases "updateMetrics (register s) st' (preSave (now e) changed2)") auto
  with c have c': "calculatePerformance (now e) st (assignFields st b found) = Some changed"
    by simp
  have "if st = ''completed'' \<or> st = ''failed''
        then endTime (performance changed) = Some (now e)
             \<and> (\<exists>started. startTime (performance found) = Some started
                   \<and> duration (performance changed) = Some (now e - started))
        else performance changed = performance found"
    using c' by (auto simp: calculatePerformance_def assignFields_keeps split: if_splits option.splits)
  with f a show ?thesis by (simp add: preSave_keeps)
qed

text \<open>
  Request \<open>r1\<close> fails at time 5000 and gets end time 5000 and duration 4000; cancelled
  instead, its \<open>performance\<close> object stays as it was.
\<close>

theorem putUpdate_sets_endTime_witness:
  "(\<exists>before after.
      stored ''r1'' ''alice'' (aiRequests tracked) = Some before
      \<and> stored ''r1'' ''alice'' (aiRequests failedAt5000) = Some after
      \<and> endTime (performance after) = Some 5000
      \<and> (\<exists>started. startTime (performance before) = Some started
            \<and> duration (performance after) = Some (5000 - started)))
   \<and> (\<exists>before after.
      stored ''r1'' ''alice'' (aiRequests tracked) = Some before
      \<and> stored ''r1'' ''alice''
           (aiRequests (fst (putUpdate (clock 5000) alice ''r1'' (statusOnly ''cancelled'') tracked)))
           = Some after
      \<and> performance after = performance before)"
proof -
  have run1: "putUpdate (clock 5000) alice ''r1'' (statusOnly ''failed'') tracked
                = (failedAt5000, Updated ''r1'' ''failed'')"
    using failedAt5000_reply by (simp add: failedAt5000_def prod_eq_iff)
  have "snd (putUpdate (clock 5000) alice ''r1'' (statusOnly ''cancelled'') tracked)
          = Updated ''r1'' ''cancelled''"
    by (simp add: tracked_value update_defs validation_defs sample_defs store_defs)
  then have run2: "putUpdate (clock 5000) alice ''r1'' (statusOnly ''cancelled'') tracked
                = (fst (putUpdate (clock 5000) alice ''r1'' (statusOnly ''cancelled'') tracked),
                   Updated ''r1'' ''cancelled'')"
    by (simp add: prod_eq_iff)
  from putUpdate_sets_endTime[OF run1] putUpdate_sets_endTime[OF run2]
  show ?thesis by (simp add: alice_def clock_def)
qed

text \<open>
  The claim as the specification words it fails twice. A cancelled request whose end time
  is unset keeps it unset, although \<open>cancelled\<close> is a terminal status; and a request whose
  end time is already set (5000, from the failure) gets a new end time (9000) when it is
  updated to \<open>completed\<close>.
\<close>

theorem putUpdate_terminal_counterexample:
  "snd (putUpdate (clock 5000) alice ''r1'' (statusOnly ''cancelled'') tracked) = Updated ''r1'' ''cancelled''
   \<and> map (\<lambda>d. endTime (performance d))
         (aiRequests (fst (putUpdate (clock 5000) alice ''r1'' (statusOnly ''cancelled'') tracked))) = [None]
   \<and> map (\<lambda>d. endTime (performance d)) (aiRequests failedAt5000) = [Some 5000]
   \<and> snd (putUpdate (clock 9000) alice ''r1'' (statusOnly ''completed'') failedAt5000)
         = Updated ''r1'' ''completed''
   \<and> map (\<lambda>d. endTime (performance d))
         (aiRequests (fst (putUpdate (clock 9000) alice ''r1'' (statusOnly ''completed'') failedAt5000)))
         = [Some 9000]"
  by (simp add: failedAt5000_def tracked_value update_defs validation_defs sample_defs store_defs)

subsection \<open>The registry after an error\<close>

text \<open>
  A reply of the sales route that is neither the 201 nor the 500 of a throw from the
  registry (that is: the 400, the 409, and the 500 of a rejected store call) leaves the
  whole state as it was. The lemmas \<open>postTrack_not_created\<close> and \<open>putUpdate_unchanged\<close>
  say the same of the two AIRequest routes.
\<close>

lemma postSalesTrack_unchanged:
  assumes run: "postSalesTrack e u h b s = (s', r)"
    and nc: "\<forall>tid. r \<noteq> Created tid" and nm: "r \<noteq> InternalError MetricsError"
  shows "s' = s"
proof (cases "validateSalesTrack b = []")
  case False
  with run show ?thesis by (auto simp: postSalesTrack_def)
next
  case v: True
  then obtain tid ty amt st where b: "sbTransactionId b = Some tid" "sbType b = Some ty"
      "sbAmount b = Some amt" "sbStatus b = Some st"
    by (cases "sbTransactionId b"; cases "sbType b"; cases "sbAmount b"; cases "sbStatus b")
       (auto simp: validateSalesTrack_def check_def isIn_def isStringNotEmpty_def split: if_splits)
  show ?thesis
  proof (cases "findFails e \<or> findOne (\<lambda>d. transactionId d = tid) (sales s) \<noteq> None")
    case True
    with run v b show ?thesis by (auto simp: postSalesTrack_def Let_def split: if_splits)
  next
    case ok: False
    show ?thesis
    proof (cases "saveNewSale e (sales s)
                    (newSalesAnalytics (now e) u h tid ty amt (withDefault (sbCurrency b) ''USD'') st
                       (sbPaymentMethod b) (withDefault (sbPlan b) ''free'') (sbRefundAmount b))")
      case None
      with run v b ok show ?thesis by (auto simp: postSalesTrack_def Let_def)
    next
      case (Some p)
      obtain docs saved where p: "p = (docs, saved)" by (cases p)
      show ?thesis
        using run v b ok Some p nc nm
        by (cases "incrementRevenue
                     (incrementTransaction (register s) ty st (withDefault (sbPlan b) ''free'')
                        (sbPaymentMethod b))
                     ty (withDefault (sbPlan b) ''free'') (withDefault (sbCurrency b) ''USD'') amt")
           (auto simp: postSalesTrack_def Let_def split: if_splits)
    qed
  qed
qed

text \<open>
  C9. A completed refund booked as \<open>-20\<close> passes the validation of
  \<open>POST /analytics/sales/track\<close>. The route saves the transaction and counts it in
  \<open>sales_transactions_total\<close>; the revenue counter then refuses the negative amount, and
  the \<open>catch\<close> block answers with the 500: an error reply, after the write, with one
  counter already incremented.
\<close>

theorem postSalesTrack_error_after_write:
  "snd (postSalesTrack (clock 1000) alice noHeaders refundBody emptyState) = InternalError MetricsError
   \<and> map transactionId (sales (fst (postSalesTrack (clock 1000) alice noHeaders refundBody emptyState)))
       = [''t9'']
   \<and> sales_transactions_total
        (register (fst (postSalesTrack (clock 1000) alice noHeaders refundBody emptyState)))
        (''refund'', ''completed'', ''free'', None) = 1
   \<and> sales_transactions_total (register emptyState) (''refund'', ''completed'', ''free'', None) = 0"
  by (simp add: sales_defs refundBody_def validation_defs sample_defs store_defs Let_def
        emptyRegistry_def inc_def incBy_def)

subsection \<open>Scope of the queries\<close>

text \<open>The history route only returns documents of the caller.\<close>

lemma getHistory_own_records:
  assumes "getHistory e u q s = Ok (requests, p)" and "r \<in> set requests"
  shows "vUserId r = callerId u"
proof -
  from assms(1) have "requests = map selectWithoutText
      (take (nat (parsedOr (hqLimit q) 20))
         (drop (nat ((parsedOr (hqPage q) 1 - 1) * parsedOr (hqLimit q) 20))
            (sort_key (\<lambda>d. - createdAt d) (filter (historyMatches (callerId u) q) (aiRequests s)))))"
    by (auto simp: getHistory_def Let_def split: if_splits)
  with assms(2) obtain d where d: "r = selectWithoutText d"
    and "d \<in> set (filter (historyMatches (callerId u) q) (aiRequests s))"
    by (auto dest!: in_set_takeD in_set_dropD)
  then have "userId d = callerId u" by (simp add: historyMatches_def)
  with d show ?thesis by (simp add: selectWithoutText_def)
qed

text \<open>
  Without a \<open>userId\<close> parameter in the query, the stats route asks for the documents
  whose \<open>userId\<close> is the caller's id as a string. No stored ObjectId is equal to a string,
  so nothing matches and the caller gets the zero object, whatever the collection holds.
\<close>

lemma getStats_without_parameter:
  assumes "q ''userId'' = None" and "callerId u \<noteq> []"
  shows "getStats dl ([''userId'' \<mapsto> Str (callerId u)] ++ q) docs
           = \<lparr>totalRequests = 0, totalTokens = 0, totalCost = 0, avgDuration = Some 0,
              successCount = 0, failureCount = 0\<rparr>"
proof -
  have "aiMatches (aiMatchStage dl ([''userId'' \<mapsto> Str (callerId u)] ++ q)) d = False" for d
    using assms by (simp add: aiMatches_def aiMatchStage_def criterion_def idIs_def map_add_def)
  then have "filter (aiMatches (aiMatchStage dl ([''userId'' \<mapsto> Str (callerId u)] ++ q))) docs = []"
    by simp
  then show ?thesis by (simp add: getStats_def aiGroup_def)
qed

text \<open>
  C1. Bob, a standard caller, has no request; Alice has one. Without a \<open>userId\<close> in the
  query string Bob's statistics are the zero object. With an empty \<open>userId=\<close> the spread
  puts the empty string over Bob's own id, \<open>if (filters.userId)\<close> then drops the actor
  criterion altogether, and the statistics that Bob receives count Alice's request.
\<close>

theorem getStatsRoute_empty_userId:
  "getStatsRoute (clock 2000) anyDates bob Map.empty tracked
     = Ok \<lparr>totalRequests = 0, totalTokens = 0, totalCost = 0, avgDuration = Some 0,
           successCount = 0, failureCount = 0\<rparr>
   \<and> getStatsRoute (clock 2000) anyDates bob [''userId'' \<mapsto> Str ''''] tracked
     = Ok \<lparr>totalRequests = 1, totalTokens = 0, totalCost = 0, avgDuration = None,
           successCount = 0, failureCount = 0\<rparr>
   \<and> map userId (aiRequests tracked) = [''alice'']"
  by (simp add: tracked_value aiStats_defs filter_defs sample_defs store_defs anyDates_def Let_def)

subsection \<open>Revenue\<close>

text \<open>
  Revenue by plan, the top revenue ranking and the monthly recurring revenue only read
  completed transactions.
\<close>

lemma filter_completed_first:
  assumes "\<And>d. P d \<Longrightarrow> saStatus d = ''completed''"
  shows "filter P (filter (\<lambda>d. saStatus d = ''completed'') docs) = filter P docs"
  using assms by (induction docs) auto

lemma getRevenueByPlan_completed_only:
  "getRevenueByPlan dl f docs = getRevenueByPlan dl f (filter (\<lambda>d. saStatus d = ''completed'') docs)"
proof -
  have "filter (revenueMatches dl f) (filter (\<lambda>d. saStatus d = ''completed'') docs)
          = filter (revenueMatches dl f) docs"
    by (rule filter_completed_first) (simp add: revenueMatches_def)
  then show ?thesis by (simp only: getRevenueByPlan_def)
qed

lemma getTopRevenue_completed_only:
  "getTopRevenue limit docs = getTopRevenue limit (filter (\<lambda>d. saStatus d = ''completed'') docs)"
  by (simp add: getTopRevenue_def)

lemma getMRR_completed_only:
  "getMRR lo hi docs = getMRR lo hi (filter (\<lambda>d. saStatus d = ''completed'') docs)"
proof -
  let ?P = "\<lambda>d. saStatus d = ''completed'' \<and> saType d = ''subscription''
                  \<and> lo \<le> saCreatedAt d \<and> saCreatedAt d \<le> hi"
  have "filter ?P (filter (\<lambda>d. saStatus d = ''completed'') docs) = filter ?P docs"
    by (rule filter_completed_first) simp
  then show ?thesis by (simp only: getMRR_def)
qed

text \<open>
  C2. With a completed transaction of 30 and a failed one of 50 in the collection, the
  total revenue of the sales statistics is 80: \<open>getSalesStats\<close> sums the amount of every
  matching transaction, whatever its status. The three other aggregations give 30.
\<close>

theorem getSalesStats_counts_failed:
  "totalRevenue (getSalesStats anyDates Map.empty (sales twoSales)) = 80
   \<and> map prTotalRevenue (getRevenueByPlan anyDates Map.empty (sales twoSales)) = [30]
   \<and> map urTotalRevenue (getTopRevenue 10 (sales twoSales)) = [30]
   \<and> getMRR 0 5000 (sales twoSales) = (30, 1)"
  by (simp add: salesStats_defs filter_defs sample_defs getTopRevenue_def getMRR_def
        anyDates_def twoSales_def completedSale_def failedSale_def Let_def)

subsection \<open>Empty matching sets\<close>

text \<open>
  When no document matches the filters, the Stats operations of the AIRequest, the
  SalesAnalytics and the UserEngagement collection return their zero object: every count
  and sum is \<open>0\<close> and every average is the number \<open>0\<close>, not \<open>null\<close>. The ratios that the
  dashboard derives from such a result are the number \<open>0\<close>: the guard on the denominator
  keeps the division by zero, whose result is no finite number, from being made.
\<close>

lemma stats_of_empty_match:
  "(filter (aiMatches (aiMatchStage dl f)) ais = [] \<longrightarrow>
      getStats dl f ais
        = \<lparr>totalRequests = 0, totalTokens = 0, totalCost = 0, avgDuration = Some 0,
           successCount = 0, failureCount = 0\<rparr>
      \<and> aiSuccessRate (getStats dl f ais) = Some 0)
   \<and> (filter (salesMatches (salesMatchStage dl f)) sas = [] \<longrightarrow>
      getSalesStats dl f sas
        = \<lparr>totalTransactions = 0, totalRevenue = 0, avgTransactionValue = Some 0,
           successfulTransactions = 0, failedTransactions = 0, refundedTransactions = 0,
           totalRefunds = 0\<rparr>
      \<and> salesSuccessRate (getSalesStats dl f sas) = Some 0)
   \<and> (filter (engagementMatches (engagementMatchStage dl f)) ues = [] \<longrightarrow>
      getEngagementStats dl f ues
        = \<lparr>totalEvents = 0, uniqueUsers = 0, uniqueSessions = 0, totalValue = 0,
           avgTimeOnPage = Some 0, avgScrollDepth = Some 0\<rparr>)"
  by (simp add: getStats_def aiGroup_def getSalesStats_def salesGroup_def getEngagementStats_def
        engagementGroup_def aiSuccessRate_def salesSuccessRate_def ratio_def)

text \<open>The division that the guard avoids has no finite result.\<close>

lemma quotient_by_zero: "quotient a 0 = None"
  by (simp add: quotient_def)

text \<open>
  The pipeline of \<open>getPerformanceStats\<close> does not parse: both percentile accumulators give
  \<open>p\<close> as a number and name no method. So \<open>aggregate()\<close> rejects for every filter object
  and every collection, and with it the function.
\<close>

lemma getPerformanceStats_rejects: "getPerformanceStats percentile dl f docs = None"
  by (simp add: getPerformanceStats_def percentileParses_def sentPercentile_def)

text \<open>
  C8. A performance Stats query whose filters match nothing, here on an empty collection
  and on a collection that holds one sample of another service: the operation rejects
  and does not return the zero object of its last lines.
\<close>

theorem getPerformanceStats_empty_match_rejects:
  "getPerformanceStats (\<lambda>a xs. None) anyDates Map.empty [] = None
   \<and> filter (perfMatches (perfMatchStage anyDates [''service'' \<mapsto> Str ''payment''])) [loginSample] = []
   \<and> getPerformanceStats (\<lambda>a xs. None) anyDates [''service'' \<mapsto> Str ''payment''] [loginSample] = None"
  by (simp add: getPerformanceStats_def percentileParses_def sentPercentile_def perfMatches_def
        perfMatchStage_def filter_defs loginSample_def)

subsection \<open>Percentiles\<close>

text \<open>
  C5. A performance Stats query over a matching set that is not empty, the one sample
  of the login endpoint: the operation rejects, so it returns no p95 and no p99 field at
  all, whatever the store's accumulator would compute.
\<close>

theorem getPerformanceStats_percentiles_reject:
  "filter (perfMatches (perfMatchStage anyDates [''service'' \<mapsto> Str ''auth''])) [loginSample]
     = [loginSample]
   \<and> getPerformanceStats (\<lambda>a xs. Some 2500) anyDates [''service'' \<mapsto> Str ''auth''] [loginSample] = None"
  by (simp add: getPerformanceStats_def percentileParses_def sentPercentile_def perfMatches_def
        perfMatchStage_def filter_defs loginSample_def)

subsection \<open>The history hides the texts\<close>

lemma map_filter_cong_on:
  assumes "map f xs = map f ys" and "\<And>a b. f a = f b \<Longrightarrow> P a = P b"
  shows "map f (filter P xs) = map f (filter P ys)"
  using assms(1)
proof (induction xs arbitrary: ys)
  case Nil
  then show ?case by simp
next
  case (Cons x xs)
  then obtain y ys' where ys: "ys = y # ys'" "f x = f y" "map f xs = map f ys'"
    by (cases ys) auto
  from assms(2)[OF ys(2)] Cons.IH[OF ys(3)] ys show ?case by simp
qed

lemma map_insort_key_cong_on:
  assumes "map f xs = map f ys" and "f x = f y" and "\<And>a b. f a = f b \<Longrightarrow> k a = k b"
  shows "map f (insort_key k x xs) = map f (insort_key k y ys)"
  using assms(1)
proof (induction xs arbitrary: ys)
  case Nil
  with assms(2) show ?case by simp
next
  case (Cons a xs)
  then obtain b ys' where ys: "ys = b # ys'" "f a = f b" "map f xs = map f ys'"
    by (cases ys) auto
  from assms(3)[OF ys(2)] assms(3)[OF assms(2)] Cons.IH[OF ys(3)] ys assms(2)
  show ?case by simp
qed

lemma map_sort_key_cong_on:
  assumes "map f xs = map f ys" and "\<And>a b. f a = f b \<Longrightarrow> k a = k b"
  shows "map f (sort_key k xs) = map f (sort_key k ys)"
  using assms(1)
proof (induction xs arbitrary: ys)
  case Nil
  then show ?case by simp
next
  case (Cons x xs)
  then obtain y ys' where ys: "ys = y # ys'" "f x = f y" "map f xs = map f ys'"
    by (cases ys) auto
  from map_insort_key_cong_on[OF Cons.IH[OF ys(3)] ys(2) assms(2)] ys
  show ?case by simp
qed

lemma selectWithoutText_fields:
  assumes "selectWithoutText a = selectWithoutText b"
  shows "userId a = userId b" "status a = status b" "model a = model b"
    "metadata a = metadata b" "createdAt a = createdAt b"
  using assms by (simp_all add: selectWithoutText_def)

lemma historyMatches_view:
  assumes "selectWithoutText a = selectWithoutText b"
  shows "historyMatches uid q a = historyMatches uid q b"
  using selectWithoutText_fields[OF assms] by (simp add: historyMatches_def)

text \<open>
  The history route reads the collection only through the projection: two collections
  with the same projected documents give the same answer.
\<close>

lemma getHistory_reads_projection:
  assumes same: "map selectWithoutText (aiRequests s1) = map selectWithoutText (aiRequests s2)"
  shows "getHistory e u q s1 = getHistory e u q s2"
proof -
  let ?P = "historyMatches (callerId u) q"
  let ?k = "\<lambda>d. - createdAt d"
  have found: "map selectWithoutText (filter ?P (aiRequests s1))
                 = map selectWithoutText (filter ?P (aiRequests s2))"
    by (rule map_filter_cong_on[OF same]) (rule historyMatches_view)
  then have total: "length (filter ?P (aiRequests s1)) = length (filter ?P (aiRequests s2))"
    by (metis length_map)
  have sorted: "map selectWithoutText (sort_key ?k (filter ?P (aiRequests s1)))
                  = map selectWithoutText (sort_key ?k (filter ?P (aiRequests s2)))"
    by (rule map_sort_key_cong_on[OF found]) (simp add: selectWithoutText_def)
  have page: "map selectWithoutText (take n (drop m (sort_key ?k (filter ?P (aiRequests s1)))))
                = map selectWithoutText (take n (drop m (sort_key ?k (filter ?P (aiRequests s2)))))"
    for n m
    by (simp only: take_map[symmetric] drop_map[symmetric] sorted)
  show ?thesis
    by (simp add: getHistory_def Let_def page total)
qed

text \<open>The projection of a document does not depend on its prompt or its response.\<close>

lemma selectWithoutText_retext:
  "selectWithoutText (d\<lparr>prompt := p, response := r\<rparr>) = selectWithoutText d"
  by (simp add: selectWithoutText_def)

lemma sameButTexts_projection:
  assumes "sameButTexts a b"
  shows "selectWithoutText a = selectWithoutText b"
proof -
  from assms have "selectWithoutText b
      = selectWithoutText (a\<lparr>prompt := prompt b, response := response b\<rparr>)"
    unfolding sameButTexts_def by (rule arg_cong)
  then show ?thesis by (simp only: selectWithoutText_retext)
qed

text \<open>
  C10. Two states whose AIRequest collections hold, position by position, the same
  documents but for the prompt and the response, give the same answer to every history
  request: the records and the pagination are equal.
\<close>

theorem getHistory_hides_text:
  assumes "list_all2 sameButTexts (aiRequests s1) (aiRequests s2)"
  shows "getHistory e u q s1 = getHistory e u q s2"
proof -
  from assms have "map selectWithoutText (aiRequests s1) = map selectWithoutText (aiRequests s2)"
    by (induction rule: list_all2_induct) (simp_all add: sameButTexts_projection)
  then show ?thesis by (rule getHistory_reads_projection)
qed

text \<open>
  The sample state and its copy with another prompt and a response differ in these texts
  and give the same first page, which holds request \<open>r1\<close>.
\<close>

theorem getHistory_hides_text_witness:
  "getHistory (clock 2000) alice firstPage tracked = getHistory (clock 2000) alice firstPage retexted
   \<and> map prompt (aiRequests tracked) = [''describe'']
   \<and> map prompt (aiRequests retexted) = [''another prompt'']
   \<and> (case getHistory (clock 2000) alice firstPage tracked of
         Ok (requests, p) \<Rightarrow> map vRequestId requests = [''r1''] \<and> pgTotal p = 1
       | _ \<Rightarrow> False)"
proof -
  have "list_all2 sameButTexts (aiRequests tracked) (aiRequests retexted)"
    by (simp add: retexted_def tracked_value sameButTexts_def)
  from getHistory_hides_text[OF this, of "clock 2000" alice firstPage]
  show ?thesis
    by (simp add: tracked_value history_defs firstPage_def retexted_def Let_def check_def
          sample_defs store_defs)
qed

end
